theory Spec2Isabelle
  imports Main
begin

section \<open>Values of the service\<close>

text \<open>
  A JavaScript \<open>catch\<close> receives any thrown value. The handlers of the service only ask
  \<open>error instanceof Error ? error.message : 'Unknown error'\<close>, so a thrown value is either
  an \<open>Error\<close> with its message or something else.
\<close>

datatype thrown = Error string | NotAnError

definition describe :: "thrown \<Rightarrow> string" where
  "describe error = (case error of Error m \<Rightarrow> m | NotAnError \<Rightarrow> ''Unknown error'')"

text \<open>\<open>interfaces/Credential.ts\<close>: the optional fields are \<open>option\<close>s, \<open>None\<close> is \<open>undefined\<close>.\<close>

datatype CommunicationType = email | sms | whatsapp

record Credential =
  cred_id :: string
  cred_name :: string
  cred_type :: CommunicationType
  apiKey :: string
  host :: "string option"
  port :: "int option"
  secure :: "bool option"
  username :: string
  password :: string
  createdAt :: nat
  updatedAt :: nat

text \<open>\<open>EmailMessage\<close>: \<open>cc\<close> and \<open>bcc\<close> are \<open>string | string[]\<close>, an attachment's content is
  \<open>Buffer | string\<close> (a string is base64 text).\<close>

datatype recipients = Single string | Several "string list"

datatype content = Buffer "nat list" | Base64Text string

record EmailAttachment =
  filename :: string
  att_content :: content
  contentType :: "string option"

record EmailMessage =
  msg_to :: string
  msg_subject :: string
  msg_text :: "string option"
  msg_html :: "string option"
  msg_cc :: "recipients option"
  msg_bcc :: "recipients option"
  msg_replyTo :: "string option"
  msg_attachments :: "EmailAttachment list option"

text \<open>The options object handed to \<open>nodemailer.createTransport\<close>, and the mail handed to
  \<open>sendMail\<close>: \<open>{ from: credential.username, ...message }\<close>.\<close>

record Transporter =
  t_host :: "string option"
  t_port :: "int option"
  t_secure :: "bool option"
  auth_user :: string
  auth_pass :: string

record Mail =
  mail_from :: string
  mail_message :: EmailMessage

text \<open>The provider API (\<open>ZohoAttachmentDetails\<close>, the body of the send request, and what the
  model keeps of the two JSON responses the code inspects).\<close>

record ZohoAttachmentDetails =
  storeName :: string
  attachmentPath :: string
  attachmentName :: string

record ZohoMail =
  fromAddress :: string
  toAddress :: string
  ccAddress :: "recipients option"
  bccAddress :: "recipients option"
  zm_subject :: string
  zm_content :: "string option"
  mailFormat :: string
  zm_attachments :: "ZohoAttachmentDetails list"

record AccountsResponse =
  first_accountId :: "string option"
  accounts_json :: string

record UploadResponse =
  first_upload :: "ZohoAttachmentDetails option"
  upload_json :: string

section \<open>The outbox tables and the statements sent to them\<close>

datatype msg_status = pending | sent | failed

record outgoing_message =
  om_id :: nat
  credential_id :: string
  om_type :: string
  recipient :: string
  om_cc :: "string list option"
  om_bcc :: "string list option"
  reply_to :: "string option"
  om_subject :: string
  body_text :: "string option"
  body_html :: "string option"
  status :: msg_status
  error_message :: "string option"
  sent_at :: "nat option"

record message_attachment =
  message_id :: nat
  ma_filename :: string
  content_type :: "string option"
  size_bytes :: nat
  ma_content :: "nat list"

record tables =
  outgoing_messages :: "outgoing_message list"
  message_attachments :: "message_attachment list"

text \<open>The statements of \<open>sendEmail\<close>. \<open>INSERT_message\<close> carries the inserted values (its
  \<open>om_id\<close> is ignored: the store generates the id), \<open>UPDATE_sent\<close> and \<open>UPDATE_failed\<close> carry
  the parameters \<open>$1\<close> and \<open>$2\<close>.\<close>

datatype statement =
    BEGIN
  | COMMIT
  | ROLLBACK
  | INSERT_message outgoing_message
  | INSERT_attachment message_attachment
  | UPDATE_sent nat
  | UPDATE_failed nat string

text \<open>Modelled from the spec: the message id is generated by the store at insert time
  (section 3; the code reads it back with \<open>RETURNING id\<close>), and the table definition is not
  among the sources. The model takes one more than the largest id of the table, and the
  proofs use only that the id is fresh.\<close>

primrec max_id :: "outgoing_message list \<Rightarrow> nat" where
  "max_id [] = 0"
| "max_id (r # rs) = max (om_id r) (max_id rs)"

definition next_id :: "outgoing_message list \<Rightarrow> nat" where
  "next_id rows = Suc (max_id rows)"

definition set_sent :: "nat \<Rightarrow> nat \<Rightarrow> outgoing_message \<Rightarrow> outgoing_message" where
  "set_sent now i r = (if om_id r = i then r\<lparr>status := sent, sent_at := Some now\<rparr> else r)"

definition set_failed :: "nat \<Rightarrow> string \<Rightarrow> outgoing_message \<Rightarrow> outgoing_message" where
  "set_failed i m r = (if om_id r = i then r\<lparr>status := failed, error_message := Some m\<rparr> else r)"

text \<open>The effect of a data statement on the tables it runs against; \<open>now\<close> is
  \<open>CURRENT_TIMESTAMP\<close>. Transaction control is the client's (\<open>run_statement\<close>).\<close>

fun apply_statement :: "nat \<Rightarrow> statement \<Rightarrow> tables \<Rightarrow> tables" where
  "apply_statement now (INSERT_message row) t =
     t\<lparr>outgoing_messages :=
         outgoing_messages t @ [row\<lparr>om_id := next_id (outgoing_messages t)\<rparr>]\<rparr>"
| "apply_statement now (INSERT_attachment a) t =
     t\<lparr>message_attachments := message_attachments t @ [a]\<rparr>"
| "apply_statement now (UPDATE_sent i) t =
     t\<lparr>outgoing_messages := map (set_sent now i) (outgoing_messages t)\<rparr>"
| "apply_statement now (UPDATE_failed i m) t =
     t\<lparr>outgoing_messages := map (set_failed i m) (outgoing_messages t)\<rparr>"
| "apply_statement now BEGIN t = t"
| "apply_statement now COMMIT t = t"
| "apply_statement now ROLLBACK t = t"

section \<open>The world a call runs in\<close>

text \<open>Everything a call does outside its own variables is recorded as an event, in the
  order it happens. A statement is recorded with what it threw, if it did.\<close>

datatype event =
    Connect
  | Query statement "thrown option"
  | Release
  | FindById string
  | CreateTransport Transporter
  | SendMail Transporter Mail
  | Verify Transporter
  | TokenPost string string
  | AccountsGet string
  | AttachmentPost string string
  | MessagesPost string ZohoMail

text \<open>The fields of the \<open>EmailService\<close> instance.\<close>

record service =
  transporter :: "Transporter option"
  currentCredentialId :: "string option"

text \<open>
  \<open>database\<close> holds the committed tables, \<open>transaction\<close> the tables as the checked-out
  client sees them inside its open transaction (\<open>None\<close>: no transaction is open),
  \<open>issued\<close> counts the statements the client has sent.
\<close>

record world =
  svc :: service
  database :: tables
  transaction :: "tables option"
  issued :: nat
  trace :: "event list"

text \<open>
  What the collaborators answer during one call. A statement, a lookup or a request may
  throw: \<open>query_fault env n\<close> is what the \<open>n\<close>-th statement of the client throws, if it
  does. \<open>findById\<close> is the \<open>CredentialRepository\<close> the service was constructed with.
\<close>

record env =
  connect_fault :: "thrown option"
  query_fault :: "nat \<Rightarrow> thrown option"
  current_timestamp :: nat
  findById :: "string \<Rightarrow> thrown + Credential option"
  base64 :: "string \<Rightarrow> nat list"
  sendMail :: "Transporter \<Rightarrow> Mail \<Rightarrow> thrown option"
  verify :: "Transporter \<Rightarrow> thrown option"
  token_endpoint :: "string \<Rightarrow> string \<Rightarrow> thrown + string"
  accounts_endpoint :: "string \<Rightarrow> thrown + AccountsResponse"
  upload_endpoint :: "string \<Rightarrow> string \<Rightarrow> nat list \<Rightarrow> string \<Rightarrow> thrown + UploadResponse"
  messages_endpoint :: "string \<Rightarrow> string \<Rightarrow> ZohoMail \<Rightarrow> thrown option"

section \<open>Awaited operations: state and exceptions\<close>

type_synonym 'a io = "world \<Rightarrow> (thrown + 'a) \<times> world"

definition io_return :: "'a \<Rightarrow> 'a io" where
  "io_return x = (\<lambda>w. (Inr x, w))"

definition io_throw :: "thrown \<Rightarrow> 'a io" where
  "io_throw e = (\<lambda>w. (Inl e, w))"

definition io_bind :: "'a io \<Rightarrow> ('a \<Rightarrow> 'b io) \<Rightarrow> 'b io" where
  "io_bind m f = (\<lambda>w. case m w of (Inl e, w') \<Rightarrow> (Inl e, w') | (Inr x, w') \<Rightarrow> f x w')"

definition io_catch :: "'a io \<Rightarrow> (thrown \<Rightarrow> 'a io) \<Rightarrow> 'a io" where
  "io_catch m h = (\<lambda>w. case m w of (Inl e, w') \<Rightarrow> h e w' | (Inr x, w') \<Rightarrow> (Inr x, w'))"

definition io_finally :: "'a io \<Rightarrow> (world \<Rightarrow> world) \<Rightarrow> 'a io" where
  "io_finally m c = (\<lambda>w. case m w of (r, w') \<Rightarrow> (r, c w'))"

definition emit :: "event \<Rightarrow> world \<Rightarrow> world" where
  "emit ev w = w\<lparr>trace := trace w @ [ev]\<rparr>"

subsection \<open>The database client\<close>

text \<open>\<open>this.db.connect()\<close>: a client of the pool. The pool is taken to hand out a client
  with no transaction open; the statements of the client are counted from 0.\<close>

definition db_connect :: "env \<Rightarrow> unit io" where
  "db_connect env w =
     (case connect_fault env of
        Some e \<Rightarrow> (Inl e, emit Connect w)
      | None \<Rightarrow> (Inr (), emit Connect (w\<lparr>transaction := None, issued := 0\<rparr>)))"

text \<open>\<open>client.release()\<close>: the client goes back to the pool as it is; a transaction it
  has open stays open.\<close>

definition client_release :: "world \<Rightarrow> world" where
  "client_release w = emit Release w"

text \<open>
  What a statement that does not throw does: \<open>BEGIN\<close> opens a transaction on the committed
  tables, \<open>COMMIT\<close> makes the transaction's tables the committed ones, \<open>ROLLBACK\<close> drops
  them; a data statement runs inside the open transaction, or directly on the committed
  tables when none is open.
\<close>

definition run_statement :: "nat \<Rightarrow> statement \<Rightarrow> world \<Rightarrow> world" where
  "run_statement now q w =
     (case q of
        BEGIN \<Rightarrow> (case transaction w of None \<Rightarrow> w\<lparr>transaction := Some (database w)\<rparr> | Some t \<Rightarrow> w)
      | COMMIT \<Rightarrow> (case transaction w of None \<Rightarrow> w | Some t \<Rightarrow> w\<lparr>database := t, transaction := None\<rparr>)
      | ROLLBACK \<Rightarrow> w\<lparr>transaction := None\<rparr>
      | _ \<Rightarrow> (case transaction w of
                None \<Rightarrow> w\<lparr>database := apply_statement now q (database w)\<rparr>
              | Some t \<Rightarrow> w\<lparr>transaction := Some (apply_statement now q t)\<rparr>))"

text \<open>\<open>await client.query(...)\<close>: the statement is sent; it throws and changes nothing, or
  takes effect.\<close>

definition client_query :: "env \<Rightarrow> statement \<Rightarrow> unit io" where
  "client_query env q w =
     (case query_fault env (issued w) of
        Some e \<Rightarrow> (Inl e, emit (Query q (Some e)) (w\<lparr>issued := Suc (issued w)\<rparr>))
      | None \<Rightarrow>
          (Inr (), run_statement (current_timestamp env) q
                     (emit (Query q None) (w\<lparr>issued := Suc (issued w)\<rparr>))))"

text \<open>The tables the client's next statement runs against.\<close>

definition visible :: "world \<Rightarrow> tables" where
  "visible w = (case transaction w of None \<Rightarrow> database w | Some t \<Rightarrow> t)"

text \<open>\<open>INSERT ... RETURNING id\<close> followed by \<open>rows[0].id\<close>.\<close>

definition client_insert :: "env \<Rightarrow> outgoing_message \<Rightarrow> nat io" where
  "client_insert env row w =
     (let i = next_id (outgoing_messages (visible w)) in
      case client_query env (INSERT_message row) w of
        (Inl e, w') \<Rightarrow> (Inl e, w')
      | (Inr u, w') \<Rightarrow> (Inr i, w'))"

subsection \<open>The collaborators\<close>

definition repo_findById :: "env \<Rightarrow> string \<Rightarrow> Credential option io" where
  "repo_findById env credentialId w = (findById env credentialId, emit (FindById credentialId) w)"

definition createTransport :: "Credential \<Rightarrow> Transporter" where
  "createTransport credential =
     \<lparr>t_host = host credential, t_port = port credential, t_secure = secure credential,
      auth_user = username credential, auth_pass = password credential\<rparr>"

text \<open>JavaScript truthiness of the values the code tests.\<close>

definition truthy_string :: "string option \<Rightarrow> bool" where
  "truthy_string s = (case s of None \<Rightarrow> False | Some x \<Rightarrow> x \<noteq> [])"

definition truthy_number :: "int option \<Rightarrow> bool" where
  "truthy_number n = (case n of None \<Rightarrow> False | Some x \<Rightarrow> x \<noteq> 0)"

definition truthy_recipients :: "recipients option \<Rightarrow> bool" where
  "truthy_recipients r =
     (case r of None \<Rightarrow> False | Some (Single s) \<Rightarrow> s \<noteq> [] | Some (Several xs) \<Rightarrow> True)"

text \<open>\<open>message.cc ? Array.isArray(message.cc) ? message.cc : [message.cc] : null\<close>\<close>

definition address_array :: "recipients option \<Rightarrow> string list option" where
  "address_array r =
     (if truthy_recipients r
      then (case r of Some (Several xs) \<Rightarrow> Some xs | Some (Single s) \<Rightarrow> Some [s] | None \<Rightarrow> None)
      else None)"

text \<open>\<open>Buffer.isBuffer(c) ? c : Buffer.from(c, 'base64')\<close>\<close>

definition to_buffer :: "env \<Rightarrow> content \<Rightarrow> nat list" where
  "to_buffer env c = (case c of Buffer b \<Rightarrow> b | Base64Text s \<Rightarrow> base64 env s)"

section \<open>The direct SMTP service\<close>

text \<open>The values of the first \<open>INSERT\<close> of the SMTP \<open>sendEmail\<close>.\<close>

definition smtp_pending_row :: "string \<Rightarrow> EmailMessage \<Rightarrow> outgoing_message" where
  "smtp_pending_row credentialId message =
     \<lparr>om_id = 0, credential_id = credentialId, om_type = ''email'',
      recipient = msg_to message,
      om_cc = address_array (msg_cc message), om_bcc = address_array (msg_bcc message),
      reply_to = msg_replyTo message, om_subject = msg_subject message,
      body_text = msg_text message, body_html = msg_html message,
      status = pending, error_message = None, sent_at = None\<rparr>"

text \<open>\<open>message.attachments.map(attachment => ...)\<close>, empty unless
  \<open>message.attachments?.length\<close> is truthy.\<close>

definition attachmentValues :: "env \<Rightarrow> nat \<Rightarrow> EmailMessage \<Rightarrow> message_attachment list" where
  "attachmentValues env messageId message =
     (case msg_attachments message of
        None \<Rightarrow> []
      | Some atts \<Rightarrow>
          map (\<lambda>attachment.
                 \<lparr>message_id = messageId, ma_filename = filename attachment,
                  content_type = contentType attachment,
                  size_bytes = length (to_buffer env (att_content attachment)),
                  ma_content = to_buffer env (att_content attachment)\<rparr>) atts)"

text \<open>\<open>for (const attachment of attachmentValues) await client.query(INSERT ...)\<close>\<close>

fun insert_attachments :: "env \<Rightarrow> message_attachment list \<Rightarrow> unit io" where
  "insert_attachments env [] = io_return ()"
| "insert_attachments env (a # as) =
     io_bind (client_query env (INSERT_attachment a)) (\<lambda>_. insert_attachments env as)"

text \<open>The three checks on the result of \<open>findById\<close>, the same text in the SMTP
  \<open>sendEmail\<close> and in \<open>verifyConnection\<close>.\<close>

definition validate_credential :: "Credential option \<Rightarrow> Credential io" where
  "validate_credential found =
     (case found of
        None \<Rightarrow> io_throw (Error ''Credential not found'')
      | Some credential \<Rightarrow>
          if cred_type credential \<noteq> email
          then io_throw (Error ''Invalid credential type: not an email credential'')
          else if \<not> truthy_string (host credential) \<or> \<not> truthy_number (port credential)
                  \<or> secure credential = None
          then io_throw (Error ''Invalid email credential: missing required SMTP configuration'')
          else io_return credential)"

text \<open>\<open>if (this.currentCredentialId !== credentialId) { this.transporter = ...;
  this.currentCredentialId = credentialId; }\<close>\<close>

definition update_transporter :: "string \<Rightarrow> Credential \<Rightarrow> unit io" where
  "update_transporter credentialId credential w =
     (if currentCredentialId (svc w) \<noteq> Some credentialId
      then (Inr (),
            emit (CreateTransport (createTransport credential))
              (w\<lparr>svc := \<lparr>transporter = Some (createTransport credential),
                         currentCredentialId = Some credentialId\<rparr>\<rparr>))
      else (Inr (), w))"

text \<open>\<open>await this.transporter!.sendMail({ from: credential.username, ...message })\<close>; on a
  null transporter the member access throws a \<open>TypeError\<close>.\<close>

definition transporter_sendMail :: "env \<Rightarrow> Credential \<Rightarrow> EmailMessage \<Rightarrow> unit io" where
  "transporter_sendMail env credential message w =
     (case transporter (svc w) of
        None \<Rightarrow> (Inl (Error ''Cannot read properties of null''), w)
      | Some t \<Rightarrow>
          (let m = \<lparr>mail_from = username credential, mail_message = message\<rparr> in
           case sendMail env t m of
             Some e \<Rightarrow> (Inl e, emit (SendMail t m) w)
           | None \<Rightarrow> (Inr (), emit (SendMail t m) w)))"

text \<open>The inner \<open>try\<close>/\<open>catch\<close> of the SMTP \<open>sendEmail\<close>: dispatch, then record the outcome.\<close>

definition smtp_dispatch :: "env \<Rightarrow> nat \<Rightarrow> Credential \<Rightarrow> EmailMessage \<Rightarrow> unit io" where
  "smtp_dispatch env messageId credential message =
     io_catch
       (io_bind (transporter_sendMail env credential message) (\<lambda>_.
        io_bind (client_query env (UPDATE_sent messageId)) (\<lambda>_.
        client_query env COMMIT)))
       (\<lambda>error.
        io_bind (client_query env (UPDATE_failed messageId (describe error))) (\<lambda>_.
        io_bind (client_query env COMMIT) (\<lambda>_.
        io_throw error)))"

text \<open>The body of the outer \<open>try\<close>.\<close>

definition smtp_try :: "env \<Rightarrow> string \<Rightarrow> EmailMessage \<Rightarrow> unit io" where
  "smtp_try env credentialId message =
     io_bind (client_query env BEGIN) (\<lambda>_.
     io_bind (client_insert env (smtp_pending_row credentialId message)) (\<lambda>messageId.
     io_bind (insert_attachments env (attachmentValues env messageId message)) (\<lambda>_.
     io_bind (repo_findById env credentialId) (\<lambda>found.
     io_bind (validate_credential found) (\<lambda>credential.
     io_bind (update_transporter credentialId credential) (\<lambda>_.
     smtp_dispatch env messageId credential message))))))"

text \<open>The outer \<open>catch\<close> of both services: \<open>ROLLBACK\<close>, then the wrapped error.\<close>

definition rollback_and_wrap :: "env \<Rightarrow> thrown \<Rightarrow> unit io" where
  "rollback_and_wrap env error =
     io_bind (client_query env ROLLBACK) (\<lambda>_.
     io_throw (Error (''Failed to send email: '' @ describe error)))"

text \<open>\<open>EmailService.sendEmail\<close> of the SMTP service.\<close>

definition smtp_sendEmail :: "env \<Rightarrow> string \<Rightarrow> EmailMessage \<Rightarrow> unit io" where
  "smtp_sendEmail env credentialId message =
     io_bind (db_connect env) (\<lambda>_.
     io_finally
       (io_catch (smtp_try env credentialId message) (rollback_and_wrap env))
       client_release)"

text \<open>\<open>EmailService.verifyConnection\<close>, the same text in both services.\<close>

definition transporter_verify :: "env \<Rightarrow> Transporter \<Rightarrow> unit io" where
  "transporter_verify env t w =
     (case verify env t of
        Some e \<Rightarrow> (Inl e, emit (Verify t) w)
      | None \<Rightarrow> (Inr (), emit (Verify t) w))"

definition test_transport :: "Credential \<Rightarrow> Transporter io" where
  "test_transport credential w =
     (Inr (createTransport credential), emit (CreateTransport (createTransport credential)) w)"

definition verifyConnection :: "env \<Rightarrow> string \<Rightarrow> bool io" where
  "verifyConnection env credentialId =
     io_bind (repo_findById env credentialId) (\<lambda>found.
     io_bind (validate_credential found) (\<lambda>credential.
     io_bind (test_transport credential) (\<lambda>testTransporter.
     io_catch
       (io_bind (transporter_verify env testTransporter) (\<lambda>_. io_return True))
       (\<lambda>error.
        io_throw (Error (''Failed to verify email connection: '' @ describe error))))))"

section \<open>The provider API service\<close>

definition getZohoAccessToken :: "env \<Rightarrow> string \<Rightarrow> string \<Rightarrow> string io" where
  "getZohoAccessToken env clientId clientSecret w =
     (case token_endpoint env clientId clientSecret of
        Inl error \<Rightarrow>
          (Inl (Error (''Failed to get Zoho access token: '' @ describe error)),
           emit (TokenPost clientId clientSecret) w)
      | Inr access_token \<Rightarrow> (Inr access_token, emit (TokenPost clientId clientSecret) w))"

definition accounts_get :: "env \<Rightarrow> string \<Rightarrow> AccountsResponse io" where
  "accounts_get env accessToken w =
     (accounts_endpoint env accessToken, emit (AccountsGet accessToken) w)"

definition getZohoAccountId :: "env \<Rightarrow> string \<Rightarrow> string io" where
  "getZohoAccountId env accessToken =
     io_catch
       (io_bind (accounts_get env accessToken)
          (\<lambda>response.
             case first_accountId response of
               None \<Rightarrow> io_throw (Error (''No Zoho account found in response: ''
                                          @ accounts_json response))
             | Some accountId \<Rightarrow>
                 if accountId = []
                 then io_throw (Error (''No Zoho account found in response: ''
                                        @ accounts_json response))
                 else io_return accountId))
       (\<lambda>error. io_throw (Error (''Failed to get Zoho account ID: '' @ describe error)))"

definition upload_post :: "env \<Rightarrow> string \<Rightarrow> string \<Rightarrow> nat list \<Rightarrow> string \<Rightarrow> UploadResponse io" where
  "upload_post env accountId accessToken file fname w =
     (upload_endpoint env accountId accessToken file fname,
      emit (AttachmentPost accountId fname) w)"

definition uploadAttachment ::
  "env \<Rightarrow> string \<Rightarrow> string \<Rightarrow> nat list \<Rightarrow> string \<Rightarrow> ZohoAttachmentDetails io" where
  "uploadAttachment env accountId accessToken file fname =
     io_catch
       (io_bind (upload_post env accountId accessToken file fname)
          (\<lambda>response.
             case first_upload response of
               None \<Rightarrow> io_throw (Error (''Invalid upload response: '' @ upload_json response))
             | Some d \<Rightarrow> io_return d))
       (\<lambda>error. io_throw (Error (''Failed to upload attachment: '' @ describe error)))"

text \<open>
  \<open>Promise.all(message.attachments.map(async attachment => ...))\<close>: every upload is
  started, in the order of the list; the result is the list of the details, or the
  rejection of an upload that failed (the model takes the first one of the list).
\<close>

fun upload_all ::
  "env \<Rightarrow> string \<Rightarrow> string \<Rightarrow> EmailAttachment list \<Rightarrow> ZohoAttachmentDetails list io" where
  "upload_all env accountId accessToken [] = io_return []"
| "upload_all env accountId accessToken (attachment # rest) =
     (\<lambda>w. case uploadAttachment env accountId accessToken
                  (to_buffer env (att_content attachment)) (filename attachment) w of
             (r, w1) \<Rightarrow>
               (case upload_all env accountId accessToken rest w1 of
                  (rs, w2) \<Rightarrow>
                    (case r of
                       Inl e \<Rightarrow> (Inl e, w2)
                     | Inr d \<Rightarrow> (case rs of Inl e \<Rightarrow> (Inl e, w2)
                                          | Inr ds \<Rightarrow> (Inr (d # ds), w2)))))"

text \<open>The values of the \<open>INSERT\<close> of the provider API \<open>sendEmail\<close>: no \<open>cc\<close>, \<open>bcc\<close> or
  \<open>reply_to\<close>; \<open>message.text || ''\<close> and \<open>message.html || ''\<close>.\<close>

definition zoho_pending_row :: "string \<Rightarrow> EmailMessage \<Rightarrow> outgoing_message" where
  "zoho_pending_row credentialId message =
     \<lparr>om_id = 0, credential_id = credentialId, om_type = ''email'',
      recipient = msg_to message, om_cc = None, om_bcc = None, reply_to = None,
      om_subject = msg_subject message,
      body_text = Some (case msg_text message of None \<Rightarrow> [] | Some t \<Rightarrow> t),
      body_html = Some (case msg_html message of None \<Rightarrow> [] | Some h \<Rightarrow> h),
      status = pending, error_message = None, sent_at = None\<rparr>"

definition zoho_request ::
  "Credential \<Rightarrow> EmailMessage \<Rightarrow> ZohoAttachmentDetails list \<Rightarrow> ZohoMail" where
  "zoho_request credential message attachmentDetails =
     \<lparr>fromAddress = cred_name credential, toAddress = msg_to message,
      ccAddress = msg_cc message, bccAddress = msg_bcc message,
      zm_subject = msg_subject message,
      zm_content = (if truthy_string (msg_html message) then msg_html message
                    else msg_text message),
      mailFormat = (if truthy_string (msg_html message) then ''html'' else ''plaintext''),
      zm_attachments = attachmentDetails\<rparr>"

definition post_message :: "env \<Rightarrow> string \<Rightarrow> string \<Rightarrow> ZohoMail \<Rightarrow> unit io" where
  "post_message env accountId accessToken m w =
     (case messages_endpoint env accountId accessToken m of
        Some e \<Rightarrow> (Inl e, emit (MessagesPost accountId m) w)
      | None \<Rightarrow> (Inr (), emit (MessagesPost accountId m) w))"

definition found_credential :: "Credential option \<Rightarrow> Credential io" where
  "found_credential found =
     (case found of
        None \<Rightarrow> io_throw (Error ''Credential not found'')
      | Some credential \<Rightarrow> io_return credential)"

definition stage_attachments ::
  "env \<Rightarrow> string \<Rightarrow> string \<Rightarrow> EmailMessage \<Rightarrow> ZohoAttachmentDetails list io" where
  "stage_attachments env accountId accessToken message =
     (case msg_attachments message of
        None \<Rightarrow> io_return []
      | Some atts \<Rightarrow> upload_all env accountId accessToken atts)"

text \<open>The body of the \<open>try\<close> of the provider API \<open>sendEmail\<close>.\<close>

definition zoho_try :: "env \<Rightarrow> string \<Rightarrow> EmailMessage \<Rightarrow> unit io" where
  "zoho_try env credentialId message =
     io_bind (client_query env BEGIN) (\<lambda>_.
     io_bind (client_insert env (zoho_pending_row credentialId message)) (\<lambda>messageId.
     io_bind (repo_findById env credentialId) (\<lambda>found.
     io_bind (found_credential found) (\<lambda>credential.
     io_bind (getZohoAccessToken env (username credential) (password credential)) (\<lambda>accessToken.
     io_bind (getZohoAccountId env accessToken) (\<lambda>accountId.
     io_bind (stage_attachments env accountId accessToken message) (\<lambda>attachmentDetails.
     io_bind (post_message env accountId accessToken
                (zoho_request credential message attachmentDetails)) (\<lambda>_.
     io_bind (client_query env (UPDATE_sent messageId)) (\<lambda>_.
     client_query env COMMIT)))))))))"

text \<open>\<open>EmailService.sendEmail\<close> of the provider API service.\<close>

definition zoho_sendEmail :: "env \<Rightarrow> string \<Rightarrow> EmailMessage \<Rightarrow> unit io" where
  "zoho_sendEmail env credentialId message =
     io_bind (db_connect env) (\<lambda>_.
     io_finally
       (io_catch (zoho_try env credentialId message) (rollback_and_wrap env))
       client_release)"

section \<open>The credential repository\<close>

text \<open>
  \<open>PostgresCredentialRepository.validateApiKey\<close>. The \<open>credentials\<close> table is a list of
  (id, api_key) rows; the query throws or returns the rows with the given id. The promise
  of \<open>compare\<close> is returned without \<open>await\<close>, so its rejection is not wrapped.
\<close>

record auth_db =
  credentials :: "(string \<times> string) list"
  auth_query_fault :: "thrown option"
  compare :: "string \<Rightarrow> string \<Rightarrow> thrown + bool"

definition select_api_key :: "auth_db \<Rightarrow> string \<Rightarrow> thrown + string list" where
  "select_api_key db i =
     (case auth_query_fault db of
        Some e \<Rightarrow> Inl e
      | None \<Rightarrow> Inr (map snd (filter (\<lambda>row. fst row = i) (credentials db))))"

definition validateApiKey :: "auth_db \<Rightarrow> string \<Rightarrow> string \<Rightarrow> thrown + bool" where
  "validateApiKey db i key =
     (case select_api_key db i of
        Inl error \<Rightarrow> Inl (Error (''Failed to validate API key: '' @ describe error))
      | Inr rows \<Rightarrow> (case rows of [] \<Rightarrow> Inr False | api_key # _ \<Rightarrow> compare db key api_key))"

section \<open>Vocabulary of the properties\<close>

text \<open>The events of one call: what the call appended to the trace.\<close>

definition call_events :: "world \<Rightarrow> world \<Rightarrow> event list" where
  "call_events w w' = drop (length (trace w)) (trace w')"

text \<open>The dispatch step is the hand-over of the mail: \<open>sendMail\<close> on the transporter, or the
  \<open>POST\<close> to the provider's \<open>messages\<close> endpoint.\<close>

fun is_dispatch :: "event \<Rightarrow> bool" where
  "is_dispatch (SendMail t m) = True"
| "is_dispatch (MessagesPost a m) = True"
| "is_dispatch _ = False"

text \<open>A credential that passes the three checks of \<open>validate_credential\<close>.\<close>

definition usable_smtp :: "Credential \<Rightarrow> bool" where
  "usable_smtp c =
     (cred_type c = email \<and> truthy_string (host c) \<and> truthy_number (port c) \<and> secure c \<noteq> None)"

text \<open>The two private fields are only assigned together, so a recorded credential id comes
  with a transporter.\<close>

definition service_ok :: "service \<Rightarrow> bool" where
  "service_ok s = (currentCredentialId s = None \<or> transporter s \<noteq> None)"

text \<open>The database is healthy during the call: the pool hands out a client and no statement
  throws.\<close>

definition db_ok :: "env \<Rightarrow> bool" where
  "db_ok env = (connect_fault env = None \<and> (\<forall>n. query_fault env n = None))"

text \<open>The construction of a transport, and what the SMTP \<open>sendEmail\<close> makes of the two
  fields of the service when it reaches the lines that create or reuse the transporter.\<close>

fun is_create :: "event \<Rightarrow> bool" where
  "is_create (CreateTransport t) = True"
| "is_create _ = False"

definition cached :: "service \<Rightarrow> string \<Rightarrow> Credential \<Rightarrow> service" where
  "cached s credentialId c =
     (if currentCredentialId s \<noteq> Some credentialId
      then \<lparr>transporter = Some (createTransport c), currentCredentialId = Some credentialId\<rparr>
      else s)"

definition constructions :: "service \<Rightarrow> string \<Rightarrow> Credential \<Rightarrow> event list" where
  "constructions s credentialId c =
     (if currentCredentialId s \<noteq> Some credentialId
      then [CreateTransport (createTransport c)] else [])"

section \<open>The order of the steps\<close>

text \<open>
  The step of section 4.1 of the specification an event belongs to: 1 the transaction is
  acquired, 2 the pending row is inserted, 3 the attachments are persisted or staged,
  4 the credential is resolved, 5 the transport is resolved (for the provider API: the
  token exchange and the account lookup), 6 the dispatch, 7 the outcome is recorded and
  committed, 8 the rollback; 9 is the release of the client at the end.
\<close>

fun step_of :: "event \<Rightarrow> nat" where
  "step_of Connect = 1"
| "step_of (Query BEGIN out) = 1"
| "step_of (Query (INSERT_message row) out) = 2"
| "step_of (Query (INSERT_attachment a) out) = 3"
| "step_of (AttachmentPost a n) = 3"
| "step_of (FindById i) = 4"
| "step_of (CreateTransport t) = 5"
| "step_of (TokenPost i s) = 5"
| "step_of (AccountsGet t) = 5"
| "step_of (SendMail t m) = 6"
| "step_of (MessagesPost a m) = 6"
| "step_of (Query (UPDATE_sent i) out) = 7"
| "step_of (Query (UPDATE_failed i m) out) = 7"
| "step_of (Query COMMIT out) = 7"
| "step_of (Query ROLLBACK out) = 8"
| "step_of Release = 9"
| "step_of (Verify t) = 0"

text \<open>The order in which the provider API service runs the same steps: the staging of the
  attachments (step 3) comes after the credential (step 4) and the token and account
  (step 5), which it needs.\<close>

fun zoho_position :: "event \<Rightarrow> nat" where
  "zoho_position (FindById i) = 3"
| "zoho_position (TokenPost i s) = 4"
| "zoho_position (AccountsGet t) = 4"
| "zoho_position (AttachmentPost a n) = 5"
| "zoho_position ev = step_of ev"

text \<open>The calls that leave the process for the network, and the successful insert of the
  pending row.\<close>

fun is_network :: "event \<Rightarrow> bool" where
  "is_network (SendMail t m) = True"
| "is_network (Verify t) = True"
| "is_network (TokenPost i s) = True"
| "is_network (AccountsGet t) = True"
| "is_network (AttachmentPost a n) = True"
| "is_network (MessagesPost a m) = True"
| "is_network _ = False"

fun is_pending_insert :: "event \<Rightarrow> bool" where
  "is_pending_insert (Query (INSERT_message row) None) = (status row = pending)"
| "is_pending_insert _ = False"

text \<open>\<open>inserted_first ins evs\<close>: every network call of \<open>evs\<close> comes after a successful
  insert of the pending row (\<open>ins\<close>: the row has been inserted before \<open>evs\<close>).\<close>

fun inserted_first :: "bool \<Rightarrow> event list \<Rightarrow> bool" where
  "inserted_first ins [] = True"
| "inserted_first ins (ev # evs) =
     ((is_network ev \<longrightarrow> ins) \<and> inserted_first (ins \<or> is_pending_insert ev) evs)"

section \<open>Assertions on a running call\<close>

text \<open>
  \<open>triple P m Q E\<close>: from a world that satisfies \<open>P\<close>, the operation \<open>m\<close> returns \<open>x\<close> in a
  world that satisfies \<open>Q x\<close>, or throws \<open>e\<close> in a world that satisfies \<open>E e\<close>.
\<close>

definition triple ::
  "(world \<Rightarrow> bool) \<Rightarrow> 'a io \<Rightarrow> ('a \<Rightarrow> world \<Rightarrow> bool) \<Rightarrow> (thrown \<Rightarrow> world \<Rightarrow> bool) \<Rightarrow> bool" where
  "triple P m Q E =
     (\<forall>w. P w \<longrightarrow> (case m w of (Inl e, w') \<Rightarrow> E e w' | (Inr x, w') \<Rightarrow> Q x w'))"

text \<open>
  How far a call that started with trace \<open>tr0\<close> on committed tables \<open>d0\<close> has come: the
  service's fields are \<open>s\<close>, the transports constructed so far are \<open>cr\<close>, \<open>disp\<close> tells
  whether the mail has been handed over, and until then the committed tables are \<open>d0\<close>;
  a mail handed to a transporter was handed to the one of \<open>s\<close>.
\<close>

definition progress ::
  "event list \<Rightarrow> tables \<Rightarrow> service \<Rightarrow> event list \<Rightarrow> bool \<Rightarrow> world \<Rightarrow> bool" where
  "progress tr0 d0 s cr disp w =
     (svc w = s \<and> (disp \<or> database w = d0) \<and>
      (\<exists>evs. trace w = tr0 @ evs \<and> list_ex is_dispatch evs = disp \<and> filter is_create evs = cr
            \<and> (\<forall>t m. SendMail t m \<in> set evs \<longrightarrow> transporter s = Some t)))"

text \<open>The SMTP call has handed the mail over, with a credential that passed the checks and
  the transporter created or reused for it.\<close>

definition smtp_reached ::
  "env \<Rightarrow> string \<Rightarrow> event list \<Rightarrow> tables \<Rightarrow> service \<Rightarrow> world \<Rightarrow> bool" where
  "smtp_reached env cid tr0 d0 s0 w =
     (\<exists>c. findById env cid = Inr (Some c) \<and> usable_smtp c \<and>
          progress tr0 d0 (cached s0 cid c) (constructions s0 cid c) True w)"

text \<open>Where the SMTP call can be when it ends: it has handed the mail over, or it has
  committed nothing and left the service's fields alone.\<close>

definition smtp_exit ::
  "env \<Rightarrow> string \<Rightarrow> event list \<Rightarrow> tables \<Rightarrow> service \<Rightarrow> world \<Rightarrow> bool" where
  "smtp_exit env cid tr0 d0 s0 w =
     (progress tr0 d0 s0 [] False w \<or> smtp_reached env cid tr0 d0 s0 w)"

text \<open>The same for the provider API call, which never touches the service's fields.\<close>

definition zoho_reached ::
  "env \<Rightarrow> string \<Rightarrow> event list \<Rightarrow> tables \<Rightarrow> service \<Rightarrow> world \<Rightarrow> bool" where
  "zoho_reached env cid tr0 d0 s0 w =
     ((\<exists>c. findById env cid = Inr (Some c)) \<and> progress tr0 d0 s0 [] True w)"

definition zoho_exit ::
  "env \<Rightarrow> string \<Rightarrow> event list \<Rightarrow> tables \<Rightarrow> service \<Rightarrow> world \<Rightarrow> bool" where
  "zoho_exit env cid tr0 d0 s0 w =
     (progress tr0 d0 s0 [] False w \<or> zoho_reached env cid tr0 d0 s0 w)"

text \<open>
  The shape of the events of a call so far: in the order of \<open>rank\<close>, none beyond \<open>k\<close>, every
  network call after the insert of the pending row (which has happened if \<open>ins\<close>).
\<close>

definition shape :: "(event \<Rightarrow> nat) \<Rightarrow> event list \<Rightarrow> nat \<Rightarrow> bool \<Rightarrow> world \<Rightarrow> bool" where
  "shape rank tr0 k ins w =
     (\<exists>evs. trace w = tr0 @ evs \<and> sorted (map rank evs) \<and> (\<forall>e \<in> set evs. rank e \<le> k)
           \<and> inserted_first False evs \<and> (ins \<longrightarrow> list_ex is_pending_insert evs))"

section \<open>Concrete inputs\<close>

definition ex_credential :: Credential where
  "ex_credential =
     \<lparr>cred_id = ''c1'', cred_name = ''noreply@example.com'', cred_type = email,
      apiKey = ''k1'', host = Some ''smtp.example.com'', port = Some 587, secure = Some False,
      username = ''noreply@example.com'', password = ''secret'',
      createdAt = 0, updatedAt = 0\<rparr>"

text \<open>An SMS credential without connection fields.\<close>

definition ex_sms_credential :: Credential where
  "ex_sms_credential =
     ex_credential\<lparr>cred_type := sms, host := None, port := None, secure := None\<rparr>"

definition ex_message :: EmailMessage where
  "ex_message =
     \<lparr>msg_to = ''user@example.com'', msg_subject = ''Welcome'', msg_text = Some ''Hello'',
      msg_html = None, msg_cc = None, msg_bcc = None, msg_replyTo = None,
      msg_attachments = None\<rparr>"

text \<open>An environment in which everything succeeds. \<open>c1\<close> is a complete SMTP credential,
  \<open>c8\<close> an email credential without the secure flag, \<open>c9\<close> an SMS credential without
  connection fields; there is no other credential.\<close>

definition ex_env :: env where
  "ex_env =
     \<lparr>connect_fault = None, query_fault = (\<lambda>n. None), current_timestamp = 1000,
      findById = (\<lambda>i. if i = ''c1'' then Inr (Some ex_credential)
                      else if i = ''c8'' then Inr (Some (ex_credential\<lparr>secure := None\<rparr>))
                      else if i = ''c9'' then Inr (Some ex_sms_credential)
                      else Inr None),
      base64 = (\<lambda>s. map of_char s),
      sendMail = (\<lambda>t m. None), verify = (\<lambda>t. None),
      token_endpoint = (\<lambda>i s. Inr ''token''),
      accounts_endpoint = (\<lambda>t. Inr \<lparr>first_accountId = Some ''acct'', accounts_json = ''{}''\<rparr>),
      upload_endpoint = (\<lambda>a t f n.
         Inr \<lparr>first_upload = Some \<lparr>storeName = ''s'', attachmentPath = ''p'', attachmentName = n\<rparr>,
              upload_json = ''{}''\<rparr>),
      messages_endpoint = (\<lambda>a t m. None)\<rparr>"

text \<open>The same environment with both transports rejecting the mail.\<close>

definition ex_rejecting :: env where
  "ex_rejecting =
     ex_env\<lparr>sendMail := (\<lambda>t m. Some (Error ''rejected'')),
            messages_endpoint := (\<lambda>a t m. Some (Error ''rejected''))\<rparr>"

text \<open>A message with one attachment.\<close>

definition ex_attached :: EmailMessage where
  "ex_attached =
     ex_message\<lparr>msg_attachments :=
       Some [\<lparr>filename = ''a.txt'', att_content = Buffer [104, 105], contentType = None\<rparr>]\<rparr>"

text \<open>A service that has sent nothing yet, on empty tables.\<close>

definition ex_world :: world where
  "ex_world =
     \<lparr>svc = \<lparr>transporter = None, currentCredentialId = None\<rparr>,
      database = \<lparr>outgoing_messages = [], message_attachments = []\<rparr>,
      transaction = None, issued = 0, trace = []\<rparr>"

definition ex_auth_db :: auth_db where
  "ex_auth_db =
     \<lparr>credentials = [(''c1'', ''hash1'')], auth_query_fault = None,
      compare = (\<lambda>key h. Inr (h = ''hash1'' \<and> key = ''k1''))\<rparr>"

section \<open>Unfolding the operations\<close>

lemmas io_defs = io_bind_def io_catch_def io_finally_def io_return_def io_throw_def emit_def

text \<open>The operators applied to a world: these unfold a call step by step, from the
  outside.\<close>

lemma io_apply:
  "io_bind m f w = (case m w of (Inl e, w') \<Rightarrow> (Inl e, w') | (Inr x, w') \<Rightarrow> f x w')"
  "io_catch m h w = (case m w of (Inl e, w') \<Rightarrow> h e w' | (Inr x, w') \<Rightarrow> (Inr x, w'))"
  "io_finally m c w = (case m w of (r, w') \<Rightarrow> (r, c w'))"
  "io_return x w = (Inr x, w)"
  "io_throw e w = (Inl e, w)"
  by (simp_all add: io_defs)

lemma call_events_append: "trace w' = trace w @ evs \<Longrightarrow> call_events w w' = evs"
  by (simp add: call_events_def)

section \<open>\<open>validateApiKey\<close>\<close>

text \<open>
  C9. When the \<open>credentials\<close> table has no row with the given id, \<open>validateApiKey\<close> returns
  \<open>false\<close> for every key if the query succeeds, and raises the wrapped query error if the
  query throws; it raises nothing else, and no not-found error.
\<close>

theorem validateApiKey_no_row:
  assumes "\<forall>row \<in> set (credentials db). fst row \<noteq> i"
  shows "validateApiKey db i key =
           (case auth_query_fault db of
              None \<Rightarrow> Inr False
            | Some cause \<Rightarrow> Inl (Error (''Failed to validate API key: '' @ describe cause)))"
proof -
  from assms have "filter (\<lambda>row. fst row = i) (credentials db) = []"
    by (simp add: filter_empty_conv)
  then show ?thesis
    by (simp add: validateApiKey_def select_api_key_def split: option.splits)
qed

theorem validateApiKey_no_row_witness:
  "validateApiKey ex_auth_db ''c2'' ''k1'' = Inr False"
  using validateApiKey_no_row [of ex_auth_db "''c2''" "''k1''"]
  by (simp add: ex_auth_db_def)

section \<open>\<open>verifyConnection\<close>\<close>

lemma validate_credential_usable:
  "usable_smtp c \<Longrightarrow> validate_credential (Some c) = io_return c"
  by (auto simp: validate_credential_def usable_smtp_def)

lemma validate_credential_cases:
  "validate_credential found w = (Inr c, w') \<Longrightarrow> found = Some c \<and> usable_smtp c \<and> w' = w"
  by (auto simp: validate_credential_def usable_smtp_def io_defs split: option.splits if_splits)

lemma validate_credential_world: "snd (validate_credential found w) = w"
  by (auto simp: validate_credential_def io_defs split: option.splits)

lemma verifyConnection_world:
  "\<exists>evs. snd (verifyConnection env credentialId w) = w\<lparr>trace := trace w @ evs\<rparr>
         \<and> (\<forall>q out. Query q out \<notin> set evs)"
proof (cases "findById env credentialId")
  case (Inl e)
  then show ?thesis
    by (auto simp: verifyConnection_def repo_findById_def io_defs
             intro!: exI[of _ "[FindById credentialId]"])
next
  case (Inr found)
  show ?thesis
  proof (cases "validate_credential found (w\<lparr>trace := trace w @ [FindById credentialId]\<rparr>)")
    case (Pair r w1)
    with validate_credential_world[of found "w\<lparr>trace := trace w @ [FindById credentialId]\<rparr>"]
    have w1: "w1 = w\<lparr>trace := trace w @ [FindById credentialId]\<rparr>" by simp
    show ?thesis
    proof (cases r)
      case (Inl e)
      with Pair Inr w1 show ?thesis
        by (auto simp: verifyConnection_def repo_findById_def io_defs
                 intro!: exI[of _ "[FindById credentialId]"])
    next
      case (Inr c)
      with Pair \<open>findById env credentialId = Inr found\<close> w1 show ?thesis
        by (auto simp: verifyConnection_def repo_findById_def test_transport_def
                       transporter_verify_def io_defs split: option.splits
                 intro!: exI[of _ "[FindById credentialId, CreateTransport (createTransport c),
                                    Verify (createTransport c)]"])
    qed
  qed
qed

text \<open>
  C10. \<open>verifyConnection\<close> never returns \<open>false\<close>: every call raises an error or returns
  \<open>true\<close>.
\<close>

theorem verifyConnection_never_false:
  "(\<exists>e. fst (verifyConnection env credentialId w) = Inl e)
   \<or> fst (verifyConnection env credentialId w) = Inr True"
  by (auto simp: verifyConnection_def repo_findById_def validate_credential_def
                 test_transport_def transporter_verify_def io_defs
           split: sum.splits option.splits if_splits)

text \<open>
  C7. Every call of \<open>verifyConnection\<close> leaves the cached transporter and its credential id,
  the committed tables and the client's transaction as they were, and sends no statement:
  the world changes in its trace only. On a credential that passes the checks, the call
  builds a transport of its own from the credential and verifies that one; it returns
  \<open>true\<close> when the handshake succeeds and raises \<open>Failed to verify email connection: ...\<close>
  with the cause when it does not.
\<close>

theorem verifyConnection_side_channel:
  "(\<exists>evs. snd (verifyConnection env credentialId w) = w\<lparr>trace := trace w @ evs\<rparr>
          \<and> (\<forall>q out. Query q out \<notin> set evs))
   \<and> (findById env credentialId = Inr (Some c) \<and> usable_smtp c \<longrightarrow>
        verifyConnection env credentialId w =
          (case verify env (createTransport c) of
             None \<Rightarrow> Inr True
           | Some cause \<Rightarrow>
               Inl (Error (''Failed to verify email connection: '' @ describe cause)),
           w\<lparr>trace := trace w @ [FindById credentialId, CreateTransport (createTransport c),
                                  Verify (createTransport c)]\<rparr>))"
proof (intro conjI impI)
  show "\<exists>evs. snd (verifyConnection env credentialId w) = w\<lparr>trace := trace w @ evs\<rparr>
          \<and> (\<forall>q out. Query q out \<notin> set evs)"
    by (rule verifyConnection_world)
next
  assume "findById env credentialId = Inr (Some c) \<and> usable_smtp c"
  then show "verifyConnection env credentialId w =
          (case verify env (createTransport c) of
             None \<Rightarrow> Inr True
           | Some cause \<Rightarrow>
               Inl (Error (''Failed to verify email connection: '' @ describe cause)),
           w\<lparr>trace := trace w @ [FindById credentialId, CreateTransport (createTransport c),
                                  Verify (createTransport c)]\<rparr>)"
    by (simp add: verifyConnection_def repo_findById_def validate_credential_usable
                  test_transport_def transporter_verify_def io_defs split: option.splits)
qed

theorem verifyConnection_side_channel_witness:
  "verifyConnection ex_env ''c1'' ex_world =
     (Inr True,
      ex_world\<lparr>trace := [FindById ''c1'', CreateTransport (createTransport ex_credential),
                          Verify (createTransport ex_credential)]\<rparr>)
   \<and> verifyConnection (ex_env\<lparr>verify := (\<lambda>t. Some (Error ''ECONNREFUSED''))\<rparr>) ''c1'' ex_world =
     (Inl (Error ''Failed to verify email connection: ECONNREFUSED''),
      ex_world\<lparr>trace := [FindById ''c1'', CreateTransport (createTransport ex_credential),
                          Verify (createTransport ex_credential)]\<rparr>)"
proof -
  have u: "usable_smtp ex_credential"
    by (simp add: usable_smtp_def ex_credential_def truthy_string_def truthy_number_def)
  have a: "findById ex_env ''c1'' = Inr (Some ex_credential) \<and> usable_smtp ex_credential"
    using u by (simp add: ex_env_def)
  have b: "findById (ex_env\<lparr>verify := (\<lambda>t. Some (Error ''ECONNREFUSED''))\<rparr>) ''c1''
             = Inr (Some ex_credential) \<and> usable_smtp ex_credential"
    using u by (simp add: ex_env_def)
  from verifyConnection_side_channel [of ex_env "''c1''" ex_world ex_credential] a
       verifyConnection_side_channel
         [of "ex_env\<lparr>verify := (\<lambda>t. Some (Error ''ECONNREFUSED''))\<rparr>" "''c1''" ex_world ex_credential] b
  show ?thesis
    by (simp add: ex_env_def ex_world_def describe_def)
qed

section \<open>Fresh ids\<close>

lemma max_id_ge: "r \<in> set rows \<Longrightarrow> om_id r \<le> max_id rows"
  by (induction rows) auto

lemma next_id_fresh: "r \<in> set rows \<Longrightarrow> om_id r \<noteq> next_id rows"
  using max_id_ge[of r rows] by (simp add: next_id_def)

lemma set_sent_old: "map (set_sent now (next_id rows)) rows = rows"
  by (rule map_idI) (simp add: set_sent_def next_id_fresh)

lemma set_failed_old: "map (set_failed (next_id rows) m) rows = rows"
  by (rule map_idI) (simp add: set_failed_def next_id_fresh)

section \<open>The paths of a call on a healthy database\<close>

lemma client_query_ok:
  "query_fault env (issued w) = None \<Longrightarrow>
   client_query env q w =
     (Inr (), run_statement (current_timestamp env) q
                (w\<lparr>issued := Suc (issued w), trace := trace w @ [Query q None]\<rparr>))"
  by (simp add: client_query_def emit_def)

lemma client_insert_ok:
  "query_fault env (issued w) = None \<Longrightarrow> transaction w = Some t \<Longrightarrow>
   client_insert env row w =
     (Inr (next_id (outgoing_messages t)),
      w\<lparr>transaction :=
           Some (t\<lparr>outgoing_messages :=
                     outgoing_messages t @ [row\<lparr>om_id := next_id (outgoing_messages t)\<rparr>]\<rparr>),
        issued := Suc (issued w),
        trace := trace w @ [Query (INSERT_message row) None]\<rparr>)"
  by (simp add: client_insert_def client_query_ok visible_def run_statement_def)

lemma insert_attachments_ok:
  "db_ok env \<Longrightarrow> transaction w = Some t \<Longrightarrow>
   insert_attachments env as w =
     (Inr (), w\<lparr>transaction := Some (t\<lparr>message_attachments := message_attachments t @ as\<rparr>),
               issued := issued w + length as,
               trace := trace w @ map (\<lambda>a. Query (INSERT_attachment a) None) as\<rparr>)"
proof (induction as arbitrary: w t)
  case Nil
  then show ?case by (simp add: io_return_def)
next
  case (Cons a as)
  let ?w1 = "run_statement (current_timestamp env) (INSERT_attachment a)
                (w\<lparr>issued := Suc (issued w),
                   trace := trace w @ [Query (INSERT_attachment a) None]\<rparr>)"
  have q: "client_query env (INSERT_attachment a) w = (Inr (), ?w1)"
    using Cons.prems(1) by (simp add: client_query_ok db_ok_def)
  have w1: "?w1 = w\<lparr>issued := Suc (issued w),
                      trace := trace w @ [Query (INSERT_attachment a) None],
                      transaction := Some (t\<lparr>message_attachments := message_attachments t @ [a]\<rparr>)\<rparr>"
    using Cons.prems(2) by (simp add: run_statement_def)
  have t1: "transaction ?w1 = Some (t\<lparr>message_attachments := message_attachments t @ [a]\<rparr>)"
    by (simp add: w1)
  show ?case
    by (simp add: io_bind_def q Cons.IH[OF Cons.prems(1) t1]) (simp add: w1)
qed

lemma sendEmail_apply:
  "smtp_sendEmail env cid msg w =
     io_bind (db_connect env) (\<lambda>_.
     io_finally (io_catch (smtp_try env cid msg) (rollback_and_wrap env)) client_release) w"
  "zoho_sendEmail env cid msg w =
     io_bind (db_connect env) (\<lambda>_.
     io_finally (io_catch (zoho_try env cid msg) (rollback_and_wrap env)) client_release) w"
  "rollback_and_wrap env error w =
     io_bind (client_query env ROLLBACK) (\<lambda>_.
     io_throw (Error (''Failed to send email: '' @ describe error))) w"
  by (simp_all add: smtp_sendEmail_def zoho_sendEmail_def rollback_and_wrap_def)

lemma smtp_dispatch_apply:
  "smtp_dispatch env messageId credential message w =
     io_catch
       (io_bind (transporter_sendMail env credential message) (\<lambda>_.
        io_bind (client_query env (UPDATE_sent messageId)) (\<lambda>_.
        client_query env COMMIT)))
       (\<lambda>error.
        io_bind (client_query env (UPDATE_failed messageId (describe error))) (\<lambda>_.
        io_bind (client_query env COMMIT) (\<lambda>_.
        io_throw error))) w"
  by (simp add: smtp_dispatch_def)

lemma connected:
  "db_ok env \<Longrightarrow>
   db_connect env w = (Inr (), w\<lparr>transaction := None, issued := 0, trace := trace w @ [Connect]\<rparr>)"
  by (simp add: db_connect_def db_ok_def emit_def)

text \<open>The SMTP \<open>try\<close> block up to the dispatch, when nothing before it throws.\<close>

lemma smtp_try_ok:
  assumes "db_ok env" "findById env cid = Inr (Some c)" "usable_smtp c"
      and "transaction w = None" "issued w = 0"
  shows "smtp_try env cid msg w =
           smtp_dispatch env (next_id (outgoing_messages (database w))) c msg
             (snd (update_transporter cid c
               (w\<lparr>transaction :=
                    Some ((database w)
                      \<lparr>outgoing_messages := outgoing_messages (database w) @
                         [(smtp_pending_row cid msg)
                            \<lparr>om_id := next_id (outgoing_messages (database w))\<rparr>],
                       message_attachments := message_attachments (database w) @
                         attachmentValues env (next_id (outgoing_messages (database w))) msg\<rparr>),
                  issued := 2 + length (attachmentValues env
                                          (next_id (outgoing_messages (database w))) msg),
                  trace := trace w @
                    [Query BEGIN None, Query (INSERT_message (smtp_pending_row cid msg)) None]
                    @ map (\<lambda>a. Query (INSERT_attachment a) None)
                        (attachmentValues env (next_id (outgoing_messages (database w))) msg)
                    @ [FindById cid]\<rparr>)))"
  using assms
  by (simp add: smtp_try_def io_apply client_query_ok client_insert_ok
        insert_attachments_ok run_statement_def repo_findById_def validate_credential_usable
        db_ok_def emit_def update_transporter_def)

lemma smtp_success:
  assumes "db_ok env" "findById env cid = Inr (Some c)" "usable_smtp c"
      and "transporter (svc (snd (update_transporter cid c w))) = Some t"
      and "sendMail env t \<lparr>mail_from = username c, mail_message = msg\<rparr> = None"
  shows "fst (smtp_sendEmail env cid msg w) = Inr ()"
    and "database (snd (smtp_sendEmail env cid msg w)) =
           \<lparr>outgoing_messages = outgoing_messages (database w) @
              [(smtp_pending_row cid msg)\<lparr>om_id := next_id (outgoing_messages (database w)),
                   status := sent, sent_at := Some (current_timestamp env)\<rparr>],
            message_attachments = message_attachments (database w) @
              attachmentValues env (next_id (outgoing_messages (database w))) msg\<rparr>"
    and "transaction (snd (smtp_sendEmail env cid msg w)) = None"
    and "svc (snd (smtp_sendEmail env cid msg w)) = svc (snd (update_transporter cid c w))"
    and "trace (snd (smtp_sendEmail env cid msg w)) =
           trace w @
           [Connect, Query BEGIN None, Query (INSERT_message (smtp_pending_row cid msg)) None]
           @ map (\<lambda>a. Query (INSERT_attachment a) None)
               (attachmentValues env (next_id (outgoing_messages (database w))) msg)
           @ [FindById cid] @ constructions (svc w) cid c
           @ [SendMail t \<lparr>mail_from = username c, mail_message = msg\<rparr>,
              Query (UPDATE_sent (next_id (outgoing_messages (database w)))) None,
              Query COMMIT None, Release]"
  using assms
  by (simp_all add: sendEmail_apply io_apply connected smtp_try_ok smtp_dispatch_apply
        client_query_ok run_statement_def transporter_sendMail_def client_release_def
        update_transporter_def constructions_def emit_def db_ok_def set_sent_old set_sent_def
        split: if_splits)

lemma smtp_rejected:
  assumes "db_ok env" "findById env cid = Inr (Some c)" "usable_smtp c"
      and "transporter (svc (snd (update_transporter cid c w))) = Some t"
      and "sendMail env t \<lparr>mail_from = username c, mail_message = msg\<rparr> = Some cause"
  shows "fst (smtp_sendEmail env cid msg w) =
           Inl (Error (''Failed to send email: '' @ describe cause))"
    and "database (snd (smtp_sendEmail env cid msg w)) =
           \<lparr>outgoing_messages = outgoing_messages (database w) @
              [(smtp_pending_row cid msg)\<lparr>om_id := next_id (outgoing_messages (database w)),
                   status := failed, error_message := Some (describe cause)\<rparr>],
            message_attachments = message_attachments (database w) @
              attachmentValues env (next_id (outgoing_messages (database w))) msg\<rparr>"
    and "transaction (snd (smtp_sendEmail env cid msg w)) = None"
  using assms
  by (simp_all add: sendEmail_apply io_apply connected smtp_try_ok smtp_dispatch_apply
        client_query_ok run_statement_def transporter_sendMail_def client_release_def
        update_transporter_def emit_def db_ok_def set_failed_old set_failed_def split: if_splits)

lemma smtp_unusable:
  assumes "db_ok env" "findById env cid = Inr found"
      and "validate_credential found = io_throw e"
  shows "smtp_sendEmail env cid msg w =
           (Inl (Error (''Failed to send email: '' @ describe e)),
            w\<lparr>transaction := None,
              issued := 3 + length (attachmentValues env (next_id (outgoing_messages (database w))) msg),
              trace := trace w @
                [Connect, Query BEGIN None, Query (INSERT_message (smtp_pending_row cid msg)) None]
                @ map (\<lambda>a. Query (INSERT_attachment a) None)
                    (attachmentValues env (next_id (outgoing_messages (database w))) msg)
                @ [FindById cid, Query ROLLBACK None, Release]\<rparr>)"
  using assms(1,2)
  by (simp add: sendEmail_apply smtp_try_def io_apply connected client_release_def
         client_query_ok client_insert_ok emit_def
         insert_attachments_ok run_statement_def repo_findById_def assms(3) db_ok_def)

section \<open>The paths of the provider API service\<close>

lemma uploadAttachment_world:
  "snd (uploadAttachment env a t file fname w) = w\<lparr>trace := trace w @ [AttachmentPost a fname]\<rparr>"
  by (simp add: uploadAttachment_def upload_post_def io_defs split: sum.splits option.splits)

lemma uploadAttachment_value:
  "fst (uploadAttachment env a t file fname w) = fst (uploadAttachment env a t file fname w0)"
  by (simp add: uploadAttachment_def upload_post_def io_defs split: sum.splits option.splits)

lemma upload_all_world:
  "snd (upload_all env a t atts w) =
     w\<lparr>trace := trace w @ map (\<lambda>att. AttachmentPost a (filename att)) atts\<rparr>"
proof (induction atts arbitrary: w)
  case Nil
  then show ?case by (simp add: io_return_def)
next
  case (Cons att atts)
  let ?u = "uploadAttachment env a t (to_buffer env (att_content att)) (filename att) w"
  have "snd (upload_all env a t (att # atts) w) = snd (upload_all env a t atts (snd ?u))"
    by (simp split: prod.splits sum.splits)
  then show ?case
    by (simp only: Cons.IH uploadAttachment_world) simp
qed

lemma upload_all_value:
  "fst (upload_all env a t atts w) = fst (upload_all env a t atts w0)"
proof (induction atts arbitrary: w w0)
  case Nil
  then show ?case by (simp add: io_return_def)
next
  case (Cons att atts)
  let ?u = "uploadAttachment env a t (to_buffer env (att_content att)) (filename att)"
  have step: "fst (upload_all env a t (att # atts) v) =
          (case fst (?u v) of
             Inl e \<Rightarrow> Inl e
           | Inr d \<Rightarrow> (case fst (upload_all env a t atts (snd (?u v))) of
                         Inl e \<Rightarrow> Inl e | Inr ds \<Rightarrow> Inr (d # ds)))" for v
    by (simp split: prod.splits sum.splits)
  show ?case
    unfolding step
    using uploadAttachment_value[of env a t _ _ w w0] Cons.IH[of "snd (?u w)" "snd (?u w0)"]
    by (simp split: sum.splits)
qed

lemma stage_attachments_run:
  assumes "fst (stage_attachments env a t msg w0) = r"
  shows "stage_attachments env a t msg w =
     (r, w\<lparr>trace := trace w @
           (case msg_attachments msg of
              None \<Rightarrow> []
            | Some atts \<Rightarrow> map (\<lambda>att. AttachmentPost a (filename att)) atts)\<rparr>)"
proof (cases "msg_attachments msg")
  case None
  with assms show ?thesis by (simp add: stage_attachments_def io_return_def)
next
  case (Some atts)
  from assms Some have "fst (upload_all env a t atts w0) = r"
    by (simp add: stage_attachments_def)
  then have "fst (upload_all env a t atts w) = r"
    using upload_all_value[of env a t atts w w0] by simp
  then have "upload_all env a t atts w = (r, snd (upload_all env a t atts w))"
    by (simp add: prod_eq_iff)
  with Some show ?thesis
    by (simp add: stage_attachments_def upload_all_world)
qed

lemma getZohoAccountId_ok:
  "accounts_endpoint env tok = Inr resp \<Longrightarrow> first_accountId resp = Some acct \<Longrightarrow> acct \<noteq> [] \<Longrightarrow>
   getZohoAccountId env tok w = (Inr acct, w\<lparr>trace := trace w @ [AccountsGet tok]\<rparr>)"
  by (simp add: getZohoAccountId_def accounts_get_def io_defs)

text \<open>The provider API \<open>try\<close> block up to the dispatch, when nothing before it throws.\<close>

lemma zoho_try_ok:
  assumes "db_ok env" "findById env cid = Inr (Some c)"
      and "token_endpoint env (username c) (password c) = Inr tok"
      and "accounts_endpoint env tok = Inr resp" "first_accountId resp = Some acct" "acct \<noteq> []"
      and "fst (stage_attachments env acct tok msg w0) = Inr ds"
      and "transaction w = None" "issued w = 0"
  shows "zoho_try env cid msg w =
           io_bind (post_message env acct tok (zoho_request c msg ds)) (\<lambda>_.
           io_bind (client_query env (UPDATE_sent (next_id (outgoing_messages (database w))))) (\<lambda>_.
           client_query env COMMIT))
             (w\<lparr>transaction :=
                  Some ((database w)
                    \<lparr>outgoing_messages := outgoing_messages (database w) @
                       [(zoho_pending_row cid msg)
                          \<lparr>om_id := next_id (outgoing_messages (database w))\<rparr>]\<rparr>),
                issued := Suc (Suc 0),
                trace := trace w @
                  [Query BEGIN None, Query (INSERT_message (zoho_pending_row cid msg)) None,
                   FindById cid, TokenPost (username c) (password c), AccountsGet tok]
                  @ (case msg_attachments msg of
                       None \<Rightarrow> []
                     | Some atts \<Rightarrow> map (\<lambda>att. AttachmentPost acct (filename att)) atts)\<rparr>)"
  using assms(1-3,8,9)
  by (simp add: zoho_try_def io_apply client_query_ok client_insert_ok
        run_statement_def repo_findById_def found_credential_def getZohoAccessToken_def
        getZohoAccountId_ok[OF assms(4-6)] stage_attachments_run[OF assms(7)]
        db_ok_def emit_def)

lemma zoho_success:
  assumes "db_ok env" "findById env cid = Inr (Some c)"
      and "token_endpoint env (username c) (password c) = Inr tok"
      and "accounts_endpoint env tok = Inr resp" "first_accountId resp = Some acct" "acct \<noteq> []"
      and "fst (stage_attachments env acct tok msg w) = Inr ds"
      and "messages_endpoint env acct tok (zoho_request c msg ds) = None"
  shows "fst (zoho_sendEmail env cid msg w) = Inr ()"
    and "database (snd (zoho_sendEmail env cid msg w)) =
           \<lparr>outgoing_messages = outgoing_messages (database w) @
              [(zoho_pending_row cid msg)\<lparr>om_id := next_id (outgoing_messages (database w)),
                   status := sent, sent_at := Some (current_timestamp env)\<rparr>],
            message_attachments = message_attachments (database w)\<rparr>"
    and "transaction (snd (zoho_sendEmail env cid msg w)) = None"
    and "svc (snd (zoho_sendEmail env cid msg w)) = svc w"
    and "trace (snd (zoho_sendEmail env cid msg w)) =
           trace w @
           [Connect, Query BEGIN None, Query (INSERT_message (zoho_pending_row cid msg)) None,
            FindById cid, TokenPost (username c) (password c), AccountsGet tok]
           @ (case msg_attachments msg of
                None \<Rightarrow> []
              | Some atts \<Rightarrow> map (\<lambda>att. AttachmentPost acct (filename att)) atts)
           @ [MessagesPost acct (zoho_request c msg ds),
              Query (UPDATE_sent (next_id (outgoing_messages (database w)))) None,
              Query COMMIT None, Release]"
  using assms(1,8)
  by (simp_all add: sendEmail_apply io_apply connected zoho_try_ok[OF assms(1-7)]
        client_query_ok run_statement_def post_message_def client_release_def
        emit_def db_ok_def set_sent_old set_sent_def)

lemma zoho_rejected:
  assumes "db_ok env" "findById env cid = Inr (Some c)"
      and "token_endpoint env (username c) (password c) = Inr tok"
      and "accounts_endpoint env tok = Inr resp" "first_accountId resp = Some acct" "acct \<noteq> []"
      and "fst (stage_attachments env acct tok msg w) = Inr ds"
      and "messages_endpoint env acct tok (zoho_request c msg ds) = Some cause"
  shows "fst (zoho_sendEmail env cid msg w) =
           Inl (Error (''Failed to send email: '' @ describe cause))"
    and "database (snd (zoho_sendEmail env cid msg w)) = database w"
    and "transaction (snd (zoho_sendEmail env cid msg w)) = None"
    and "trace (snd (zoho_sendEmail env cid msg w)) =
           trace w @
           [Connect, Query BEGIN None, Query (INSERT_message (zoho_pending_row cid msg)) None,
            FindById cid, TokenPost (username c) (password c), AccountsGet tok]
           @ (case msg_attachments msg of
                None \<Rightarrow> []
              | Some atts \<Rightarrow> map (\<lambda>att. AttachmentPost acct (filename att)) atts)
           @ [MessagesPost acct (zoho_request c msg ds), Query ROLLBACK None, Release]"
  using assms(1,8)
  by (simp_all add: sendEmail_apply io_apply connected zoho_try_ok[OF assms(1-7)]
        client_query_ok run_statement_def post_message_def client_release_def
        emit_def db_ok_def)

lemma zoho_not_found:
  assumes "db_ok env" "findById env cid = Inr None"
  shows "zoho_sendEmail env cid msg w =
           (Inl (Error ''Failed to send email: Credential not found''),
            w\<lparr>transaction := None, issued := 3,
              trace := trace w @
                [Connect, Query BEGIN None, Query (INSERT_message (zoho_pending_row cid msg)) None,
                 FindById cid, Query ROLLBACK None, Release]\<rparr>)"
  using assms
  by (simp add: sendEmail_apply zoho_try_def io_apply connected client_release_def
        client_query_ok client_insert_ok run_statement_def repo_findById_def
        found_credential_def emit_def db_ok_def describe_def)

section \<open>Rules for the assertions\<close>

lemma tripleI:
  assumes "\<And>w e w'. P w \<Longrightarrow> m w = (Inl e, w') \<Longrightarrow> E e w'"
      and "\<And>w x w'. P w \<Longrightarrow> m w = (Inr x, w') \<Longrightarrow> Q x w'"
  shows "triple P m Q E"
  unfolding triple_def using assms by (auto split: prod.splits sum.splits)

lemma tripleD:
  assumes "triple P m Q E" "P w" "m w = (r, w')"
  shows "case r of Inl e \<Rightarrow> E e w' | Inr x \<Rightarrow> Q x w'"
  using assms unfolding triple_def by (fastforce split: prod.splits sum.splits)

lemma triple_bind:
  assumes "triple P m R E" and "\<And>x. triple (R x) (f x) Q E"
  shows "triple P (io_bind m f) Q E"
  using assms unfolding triple_def io_bind_def
  by (fastforce split: prod.splits sum.splits)

lemma triple_catch:
  assumes "triple P m Q R" and "\<And>e. triple (R e) (h e) Q E"
  shows "triple P (io_catch m h) Q E"
  using assms unfolding triple_def io_catch_def
  by (fastforce split: prod.splits sum.splits)

lemma triple_finally:
  assumes "triple P m Q' E'"
      and "\<And>x w. Q' x w \<Longrightarrow> Q x (c w)" and "\<And>e w. E' e w \<Longrightarrow> E e (c w)"
  shows "triple P (io_finally m c) Q E"
  using assms unfolding triple_def io_finally_def
  by (fastforce split: prod.splits sum.splits)

lemma triple_return: "(\<And>w. P w \<Longrightarrow> Q x w) \<Longrightarrow> triple P (io_return x) Q E"
  unfolding triple_def io_return_def by simp

lemma triple_throw: "(\<And>w. P w \<Longrightarrow> E e w) \<Longrightarrow> triple P (io_throw e) Q E"
  unfolding triple_def io_throw_def by simp

lemma triple_weaken:
  assumes "triple P' m Q' E'"
      and "\<And>w. P w \<Longrightarrow> P' w" "\<And>x w. Q' x w \<Longrightarrow> Q x w" "\<And>e w. E' e w \<Longrightarrow> E e w"
  shows "triple P m Q E"
  using assms unfolding triple_def by (fastforce split: prod.splits sum.splits)

lemma triple_assume:
  assumes "A \<Longrightarrow> triple P m Q E"
  shows "triple (\<lambda>w. A \<and> P w) m Q E"
proof (cases A)
  case True
  with assms show ?thesis by (simp add: triple_def)
next
  case False
  then show ?thesis by (simp add: triple_def)
qed

text \<open>An operation that only appends events, with a value that does not depend on the
  world.\<close>

lemma triple_events:
  assumes "\<And>w. m w = (v, w\<lparr>trace := trace w @ evs\<rparr>)"
      and "\<And>w. P w \<Longrightarrow> Q (w\<lparr>trace := trace w @ evs\<rparr>)"
  shows "triple P m (\<lambda>x w. v = Inr x \<and> Q w) (\<lambda>e w. v = Inl e \<and> Q w)"
  unfolding triple_def using assms by (cases v) auto

section \<open>What the operations do to the world\<close>

lemma client_query_Inl:
  "client_query env q w = (Inl e, w') \<Longrightarrow>
   w' = w\<lparr>issued := Suc (issued w), trace := trace w @ [Query q (Some e)]\<rparr>"
  by (auto simp: client_query_def emit_def split: option.splits)

lemma client_query_Inr:
  "client_query env q w = (Inr x, w') \<Longrightarrow>
   w' = run_statement (current_timestamp env) q
          (w\<lparr>issued := Suc (issued w), trace := trace w @ [Query q None]\<rparr>)"
  by (auto simp: client_query_def emit_def split: option.splits)

lemma run_statement_frame [simp]:
  "svc (run_statement now q w) = svc w"
  "trace (run_statement now q w) = trace w"
  "issued (run_statement now q w) = issued w"
  by (auto simp: run_statement_def split: statement.splits option.splits)

lemma run_statement_database:
  "q \<noteq> COMMIT \<Longrightarrow> transaction w \<noteq> None \<or> q = BEGIN \<or> q = ROLLBACK \<Longrightarrow>
   database (run_statement now q w) = database w"
  by (auto simp: run_statement_def split: statement.splits option.splits)

lemma run_statement_open:
  "q \<noteq> COMMIT \<Longrightarrow> q \<noteq> ROLLBACK \<Longrightarrow> transaction w \<noteq> None \<or> q = BEGIN \<Longrightarrow>
   transaction (run_statement now q w) \<noteq> None"
  by (auto simp: run_statement_def split: statement.splits option.splits)

lemma client_insert_Inl:
  "client_insert env row w = (Inl e, w') \<Longrightarrow> client_query env (INSERT_message row) w = (Inl e, w')"
  by (auto simp: client_insert_def Let_def split: prod.splits sum.splits)

lemma client_insert_Inr:
  "client_insert env row w = (Inr x, w') \<Longrightarrow> client_query env (INSERT_message row) w = (Inr (), w')"
  by (auto simp: client_insert_def Let_def split: prod.splits sum.splits)

lemma repo_findById_run:
  "repo_findById env cid w = (findById env cid, w\<lparr>trace := trace w @ [FindById cid]\<rparr>)"
  by (simp add: repo_findById_def emit_def)

lemma update_transporter_run:
  "update_transporter cid c w =
     (Inr (), w\<lparr>svc := cached (svc w) cid c,
               trace := trace w @ constructions (svc w) cid c\<rparr>)"
  by (simp add: update_transporter_def cached_def constructions_def emit_def)

section \<open>Progress of a call\<close>

lemma quiet_no_sendMail: "\<not> list_ex is_dispatch evs \<Longrightarrow> SendMail t m \<notin> set evs"
  by (auto simp: list_ex_iff)

lemma progress_step:
  assumes "progress tr0 d0 s cr disp w"
      and "svc w' = svc w" "disp \<or> database w' = database w" "trace w' = trace w @ evs'"
      and "\<not> list_ex is_dispatch evs'" "filter is_create evs' = []"
  shows "progress tr0 d0 s cr disp w'"
proof -
  from assms(1) obtain evs where
    e: "trace w = tr0 @ evs" "list_ex is_dispatch evs = disp" "filter is_create evs = cr"
       "\<forall>t m. SendMail t m \<in> set evs \<longrightarrow> transporter s = Some t"
    and s: "svc w = s" "disp \<or> database w = d0"
    unfolding progress_def by blast
  have "trace w' = tr0 @ (evs @ evs')" using e(1) assms(4) by simp
  moreover have "list_ex is_dispatch (evs @ evs') = disp" using e(2) assms(5) by simp
  moreover have "filter is_create (evs @ evs') = cr" using e(3) assms(6) by simp
  moreover have "\<forall>t m. SendMail t m \<in> set (evs @ evs') \<longrightarrow> transporter s = Some t"
    using e(4) quiet_no_sendMail[OF assms(5)] by auto
  moreover have "svc w' = s" "disp \<or> database w' = d0" using s assms(2,3) by auto
  ultimately show ?thesis unfolding progress_def by blast
qed

lemma progress_dispatch:
  assumes "progress tr0 d0 s cr False w"
      and "svc w' = svc w" "trace w' = trace w @ [ev]" "is_dispatch ev"
      and "\<forall>t m. ev = SendMail t m \<longrightarrow> transporter s = Some t"
  shows "progress tr0 d0 s cr True w'"
proof -
  from assms(4) have nc: "\<not> is_create ev" by (cases ev) auto
  from assms(1) obtain evs where
    e: "trace w = tr0 @ evs" "\<not> list_ex is_dispatch evs" "filter is_create evs = cr"
    and s: "svc w = s"
    unfolding progress_def by blast
  have "trace w' = tr0 @ (evs @ [ev])" using e(1) assms(3) by simp
  moreover have "list_ex is_dispatch (evs @ [ev]) = True" using assms(4) by simp
  moreover have "filter is_create (evs @ [ev]) = cr" using e(3) nc by simp
  moreover have "\<forall>t m. SendMail t m \<in> set (evs @ [ev]) \<longrightarrow> transporter s = Some t"
    using quiet_no_sendMail[OF e(2)] assms(5) by auto
  moreover have "svc w' = s" using s assms(2) by simp
  ultimately show ?thesis unfolding progress_def by blast
qed

lemma progress_trace:
  "progress tr0 d0 s cr disp w \<Longrightarrow> \<not> list_ex is_dispatch evs' \<Longrightarrow> filter is_create evs' = [] \<Longrightarrow>
   progress tr0 d0 s cr disp (w\<lparr>trace := trace w @ evs'\<rparr>)"
  by (rule progress_step[where w = w]) auto

lemma query_thrown_progress:
  assumes "progress tr0 d0 s cr disp w" "client_query env q w = (Inl e, w')"
  shows "progress tr0 d0 s cr disp w'"
proof -
  from assms(2) have w': "w' = w\<lparr>issued := Suc (issued w), trace := trace w @ [Query q (Some e)]\<rparr>"
    by (rule client_query_Inl)
  show ?thesis
    by (rule progress_step[OF assms(1), where evs' = "[Query q (Some e)]"]) (simp_all add: w')
qed

lemma query_quiet:
  assumes "q \<noteq> COMMIT"
  shows "triple (\<lambda>w. progress tr0 d0 s cr False w
                     \<and> (transaction w \<noteq> None \<or> q = BEGIN \<or> q = ROLLBACK))
           (client_query env q)
           (\<lambda>_ w. progress tr0 d0 s cr False w \<and> (transaction w \<noteq> None \<or> q = ROLLBACK))
           (\<lambda>_ w. progress tr0 d0 s cr False w)"
proof (rule tripleI)
  fix w e w'
  assume "progress tr0 d0 s cr False w \<and> (transaction w \<noteq> None \<or> q = BEGIN \<or> q = ROLLBACK)"
     and "client_query env q w = (Inl e, w')"
  then show "progress tr0 d0 s cr False w'"
    using query_thrown_progress by blast
next
  fix w x w'
  assume p: "progress tr0 d0 s cr False w \<and> (transaction w \<noteq> None \<or> q = BEGIN \<or> q = ROLLBACK)"
     and r: "client_query env q w = (Inr x, w')"
  let ?w1 = "w\<lparr>issued := Suc (issued w), trace := trace w @ [Query q None]\<rparr>"
  from r have w': "w' = run_statement (current_timestamp env) q ?w1"
    by (rule client_query_Inr)
  have t1: "transaction ?w1 \<noteq> None \<or> q = BEGIN \<or> q = ROLLBACK"
    using p by simp
  have db: "database w' = database w"
    unfolding w' using run_statement_database[OF assms t1] by simp
  from p have p0: "progress tr0 d0 s cr False w" by simp
  have "progress tr0 d0 s cr False w'"
    by (rule progress_step[OF p0, where evs' = "[Query q None]"]) (simp_all add: w' db[unfolded w'])
  moreover have "transaction w' \<noteq> None \<or> q = ROLLBACK"
  proof (cases "q = ROLLBACK")
    case True
    then show ?thesis by simp
  next
    case False
    with t1 have "transaction ?w1 \<noteq> None \<or> q = BEGIN" by simp
    from run_statement_open[OF assms False this] show ?thesis unfolding w' by simp
  qed
  ultimately show "progress tr0 d0 s cr False w' \<and> (transaction w' \<noteq> None \<or> q = ROLLBACK)"
    by simp
qed

lemma query_after_dispatch:
  "triple (progress tr0 d0 s cr True) (client_query env q)
     (\<lambda>_. progress tr0 d0 s cr True) (\<lambda>_. progress tr0 d0 s cr True)"
proof (rule tripleI)
  fix w e w'
  assume "progress tr0 d0 s cr True w" "client_query env q w = (Inl e, w')"
  then show "progress tr0 d0 s cr True w'"
    by (rule query_thrown_progress)
next
  fix w x w'
  assume p: "progress tr0 d0 s cr True w" and r: "client_query env q w = (Inr x, w')"
  from r have w': "w' = run_statement (current_timestamp env) q
                          (w\<lparr>issued := Suc (issued w), trace := trace w @ [Query q None]\<rparr>)"
    by (rule client_query_Inr)
  show "progress tr0 d0 s cr True w'"
    by (rule progress_step[OF p, where evs' = "[Query q None]"]) (simp_all add: w')
qed

lemma insert_quiet:
  "triple (\<lambda>w. progress tr0 d0 s cr False w \<and> transaction w \<noteq> None)
     (client_insert env row)
     (\<lambda>_ w. progress tr0 d0 s cr False w \<and> transaction w \<noteq> None)
     (\<lambda>_ w. progress tr0 d0 s cr False w)"
proof (rule tripleI)
  fix w e w'
  assume p: "progress tr0 d0 s cr False w \<and> transaction w \<noteq> None"
     and r: "client_insert env row w = (Inl e, w')"
  from tripleD[OF query_quiet[of "INSERT_message row" tr0 d0 s cr env] _ client_insert_Inl[OF r]] p
  show "progress tr0 d0 s cr False w'" by simp
next
  fix w x w'
  assume p: "progress tr0 d0 s cr False w \<and> transaction w \<noteq> None"
     and r: "client_insert env row w = (Inr x, w')"
  from tripleD[OF query_quiet[of "INSERT_message row" tr0 d0 s cr env] _ client_insert_Inr[OF r]] p
  show "progress tr0 d0 s cr False w' \<and> transaction w' \<noteq> None" by simp
qed

lemma insert_attachments_quiet:
  "triple (\<lambda>w. progress tr0 d0 s cr False w \<and> transaction w \<noteq> None)
     (insert_attachments env as)
     (\<lambda>_ w. progress tr0 d0 s cr False w \<and> transaction w \<noteq> None)
     (\<lambda>_ w. progress tr0 d0 s cr False w)"
proof (induction as)
  case Nil
  show ?case by (simp add: triple_return)
next
  case (Cons a as)
  have "triple (\<lambda>w. progress tr0 d0 s cr False w \<and> transaction w \<noteq> None)
          (client_query env (INSERT_attachment a))
          (\<lambda>_ w. progress tr0 d0 s cr False w \<and> transaction w \<noteq> None)
          (\<lambda>_ w. progress tr0 d0 s cr False w)"
    by (rule triple_weaken[OF query_quiet[of "INSERT_attachment a"]]) auto
  then show ?case
    by (simp only: insert_attachments.simps) (rule triple_bind[OF _ Cons.IH])
qed

section \<open>Progress of the SMTP \<open>sendEmail\<close>\<close>

lemma rollback_progress:
  "triple (progress tr0 d0 s cr disp) (rollback_and_wrap env e)
     (\<lambda>_ w. False) (\<lambda>_. progress tr0 d0 s cr disp)"
proof -
  have q: "triple (progress tr0 d0 s cr disp) (client_query env ROLLBACK)
             (\<lambda>_. progress tr0 d0 s cr disp) (\<lambda>_. progress tr0 d0 s cr disp)"
  proof (cases disp)
    case True
    then show ?thesis using query_after_dispatch[of tr0 d0 s cr env ROLLBACK] by simp
  next
    case False
    then show ?thesis
      using triple_weaken[OF query_quiet[of ROLLBACK tr0 d0 s cr env],
              of "progress tr0 d0 s cr False" "\<lambda>_. progress tr0 d0 s cr False"
                 "\<lambda>_. progress tr0 d0 s cr False"]
      by simp
  qed
  show ?thesis
    unfolding rollback_and_wrap_def
    by (rule triple_bind[OF q]) (simp add: triple_throw)
qed

lemma release_progress:
  "progress tr0 d0 s cr disp w \<Longrightarrow> progress tr0 d0 s cr disp (client_release w)"
  by (rule progress_step[where w = w and evs' = "[Release]"])
     (simp_all add: client_release_def emit_def)

lemma connect_progress:
  "triple (\<lambda>w. w = w0) (db_connect env)
     (\<lambda>_ w. progress (trace w0) (database w0) (svc w0) [] False w \<and> transaction w = None)
     (\<lambda>_. progress (trace w0) (database w0) (svc w0) [] False)"
  by (rule tripleI)
     (auto simp: db_connect_def emit_def progress_def split: option.splits)

lemma validate_credential_triple:
  "triple P (validate_credential found)
     (\<lambda>c w. P w \<and> found = Some c \<and> usable_smtp c) (\<lambda>_. P)"
proof (rule tripleI)
  fix w e w' assume "P w" "validate_credential found w = (Inl e, w')"
  then show "P w'"
    using validate_credential_world[of found w] by simp
next
  fix w c w' assume "P w" "validate_credential found w = (Inr c, w')"
  then show "P w' \<and> found = Some c \<and> usable_smtp c"
    using validate_credential_cases[of found w c w'] by simp
qed

lemma update_transporter_progress:
  "triple (\<lambda>w. progress tr0 d0 s0 [] False w \<and> transaction w \<noteq> None)
     (update_transporter cid c)
     (\<lambda>_ w. progress tr0 d0 (cached s0 cid c) (constructions s0 cid c) False w
             \<and> transaction w \<noteq> None)
     (\<lambda>_ w. False)"
proof (rule tripleI)
  fix w x w'
  assume p: "progress tr0 d0 s0 [] False w \<and> transaction w \<noteq> None"
     and r: "update_transporter cid c w = (Inr x, w')"
  from p obtain evs where
    e: "trace w = tr0 @ evs" "\<not> list_ex is_dispatch evs" "filter is_create evs = []"
    and s: "svc w = s0" "database w = d0"
    unfolding progress_def by blast
  from r have w': "w' = w\<lparr>svc := cached (svc w) cid c,
                            trace := trace w @ constructions (svc w) cid c\<rparr>"
    by (auto simp: update_transporter_run)
  let ?evs = "evs @ constructions s0 cid c"
  have "trace w' = tr0 @ ?evs" using e(1) s(1) by (simp add: w')
  moreover have "\<not> list_ex is_dispatch ?evs" using e(2) by (simp add: constructions_def)
  moreover have "filter is_create ?evs = constructions s0 cid c"
    using e(3) by (simp add: constructions_def)
  moreover have "\<forall>t m. SendMail t m \<in> set ?evs \<longrightarrow> transporter (cached s0 cid c) = Some t"
    using quiet_no_sendMail[OF \<open>\<not> list_ex is_dispatch ?evs\<close>] by blast
  moreover have "svc w' = cached s0 cid c" "database w' = d0" using s by (simp_all add: w')
  ultimately have "progress tr0 d0 (cached s0 cid c) (constructions s0 cid c) False w'"
    unfolding progress_def by blast
  moreover have "transaction w' \<noteq> None" using p by (simp add: w')
  ultimately show "progress tr0 d0 (cached s0 cid c) (constructions s0 cid c) False w'
                   \<and> transaction w' \<noteq> None" by simp
next
  fix w e w'
  assume "update_transporter cid c w = (Inl e, w')"
  then show False by (simp add: update_transporter_run)
qed

lemma transporter_sendMail_progress:
  assumes "transporter s \<noteq> None"
  shows "triple (progress tr0 d0 s cr False) (transporter_sendMail env c msg)
           (\<lambda>_. progress tr0 d0 s cr True) (\<lambda>_. progress tr0 d0 s cr True)"
proof -
  have "progress tr0 d0 s cr True w'"
    if p: "progress tr0 d0 s cr False w" and r: "transporter_sendMail env c msg w = (x, w')"
    for w x w'
  proof -
    from p have "svc w = s" by (simp add: progress_def)
    with assms obtain t where t: "transporter (svc w) = Some t" by auto
    let ?m = "\<lparr>mail_from = username c, mail_message = msg\<rparr>"
    from r t have w': "w' = w\<lparr>trace := trace w @ [SendMail t ?m]\<rparr>"
      by (auto simp: transporter_sendMail_def emit_def Let_def split: option.splits)
    show ?thesis
      by (rule progress_dispatch[OF p, where ev = "SendMail t ?m"])
         (use t \<open>svc w = s\<close> in \<open>simp_all add: w'\<close>)
  qed
  then show ?thesis by (intro tripleI)
qed

lemma smtp_dispatch_progress:
  assumes "transporter s \<noteq> None"
  shows "triple (progress tr0 d0 s cr False) (smtp_dispatch env i c msg)
           (\<lambda>_. progress tr0 d0 s cr True) (\<lambda>_. progress tr0 d0 s cr True)"
  unfolding smtp_dispatch_def
  apply (rule triple_catch[where R = "\<lambda>_. progress tr0 d0 s cr True"])
   apply (rule triple_bind[OF transporter_sendMail_progress[OF assms]])
   apply (rule triple_bind[OF query_after_dispatch])
   apply (rule query_after_dispatch)
  apply (rule triple_bind[OF query_after_dispatch])
  apply (rule triple_bind[OF query_after_dispatch])
  apply (rule triple_throw)
  apply assumption
  done

lemma cached_transporter:
  "service_ok s \<Longrightarrow> transporter (cached s cid c) \<noteq> None"
  by (auto simp: service_ok_def cached_def)

lemma smtp_try_progress:
  assumes "service_ok s0"
  shows "triple (progress tr0 d0 s0 [] False) (smtp_try env cid msg)
           (\<lambda>_. smtp_reached env cid tr0 d0 s0) (\<lambda>_. smtp_exit env cid tr0 d0 s0)"
  unfolding smtp_try_def
  apply (rule triple_bind[where R = "\<lambda>_ w. progress tr0 d0 s0 [] False w \<and> transaction w \<noteq> None"])
   apply (rule triple_weaken[OF query_quiet[of BEGIN tr0 d0 s0 "[]" env]])
      apply (auto simp: smtp_exit_def)[4]
  apply (rule triple_bind[where R = "\<lambda>_ w. progress tr0 d0 s0 [] False w \<and> transaction w \<noteq> None"])
   apply (rule triple_weaken[OF insert_quiet[of tr0 d0 s0 "[]"]])
     apply (auto simp: smtp_exit_def)[3]
  apply (rule triple_bind[where R = "\<lambda>_ w. progress tr0 d0 s0 [] False w \<and> transaction w \<noteq> None"])
   apply (rule triple_weaken[OF insert_attachments_quiet[of tr0 d0 s0 "[]"]])
     apply (auto simp: smtp_exit_def)[3]
  apply (rule triple_bind[where R = "\<lambda>found w. findById env cid = Inr found \<and>
           progress tr0 d0 s0 [] False w \<and> transaction w \<noteq> None"])
   apply (rule triple_weaken[OF triple_events[OF repo_findById_run,
            where P = "\<lambda>w. progress tr0 d0 s0 [] False w \<and> transaction w \<noteq> None"
              and Q = "\<lambda>w. progress tr0 d0 s0 [] False w \<and> transaction w \<noteq> None"]])
      apply (auto simp: smtp_exit_def progress_trace)[4]
  apply (rule triple_bind[where R = "\<lambda>c w. (findById env cid = Inr (Some c) \<and> usable_smtp c) \<and>
           progress tr0 d0 s0 [] False w \<and> transaction w \<noteq> None"])
   apply (rule triple_weaken[OF validate_credential_triple[where P = "\<lambda>w. findById env cid = Inr x \<and>
           progress tr0 d0 s0 [] False w \<and> transaction w \<noteq> None" for x]])
     apply (auto simp: smtp_exit_def)[3]
  subgoal for u i v found c
    apply (rule triple_assume)
    apply (rule triple_bind[where R = "\<lambda>_. progress tr0 d0 (cached s0 cid c) (constructions s0 cid c) False"])
     apply (rule triple_weaken[OF update_transporter_progress[of tr0 d0 s0 cid c]])
       apply (simp_all)[3]
    apply (rule triple_weaken[OF smtp_dispatch_progress[OF cached_transporter[OF assms, of cid c],
             of tr0 d0 "constructions s0 cid c"]])
      apply (auto simp: smtp_exit_def smtp_reached_def)
    done
  done

lemma smtp_exit_rollback:
  "triple (smtp_exit env cid tr0 d0 s0) (rollback_and_wrap env e)
     (\<lambda>_. smtp_reached env cid tr0 d0 s0) (\<lambda>_. smtp_exit env cid tr0 d0 s0)"
proof (rule tripleI)
  fix w e' w' assume p: "smtp_exit env cid tr0 d0 s0 w"
    and r: "rollback_and_wrap env e w = (Inl e', w')"
  show "smtp_exit env cid tr0 d0 s0 w'"
    using p tripleD[OF rollback_progress _ r]
    unfolding smtp_exit_def smtp_reached_def by fastforce
next
  fix w x w' assume p: "smtp_exit env cid tr0 d0 s0 w"
    and r: "rollback_and_wrap env e w = (Inr x, w')"
  show "smtp_reached env cid tr0 d0 s0 w'"
    using p tripleD[OF rollback_progress _ r]
    unfolding smtp_exit_def smtp_reached_def by fastforce
qed

lemma smtp_release:
  "smtp_reached env cid tr0 d0 s0 w \<Longrightarrow> smtp_reached env cid tr0 d0 s0 (client_release w)"
  "smtp_exit env cid tr0 d0 s0 w \<Longrightarrow> smtp_exit env cid tr0 d0 s0 (client_release w)"
  unfolding smtp_exit_def smtp_reached_def by (auto intro: release_progress)

lemma smtp_sendEmail_progress:
  assumes "service_ok (svc w0)"
  shows "triple (\<lambda>w. w = w0) (smtp_sendEmail env cid msg)
           (\<lambda>_. smtp_reached env cid (trace w0) (database w0) (svc w0))
           (\<lambda>_. smtp_exit env cid (trace w0) (database w0) (svc w0))"
  unfolding smtp_sendEmail_def
  apply (rule triple_bind[where R = "\<lambda>_. progress (trace w0) (database w0) (svc w0) [] False"])
   apply (rule triple_weaken[OF connect_progress[of w0 env]])
     apply (auto simp: smtp_exit_def)[3]
  apply (rule triple_finally[where Q' = "\<lambda>_. smtp_reached env cid (trace w0) (database w0) (svc w0)"
           and E' = "\<lambda>_. smtp_exit env cid (trace w0) (database w0) (svc w0)"])
    apply (rule triple_catch[OF smtp_try_progress[OF assms] smtp_exit_rollback])
   apply (erule smtp_release)+
  done

text \<open>Every run of the SMTP \<open>sendEmail\<close>.\<close>

lemma smtp_summary:
  assumes "smtp_sendEmail env cid msg w = (r, w')" "service_ok (svc w)"
  shows "smtp_reached env cid (trace w) (database w) (svc w) w'
         \<or> (isl r \<and> progress (trace w) (database w) (svc w) [] False w')"
  using tripleD[OF smtp_sendEmail_progress[OF assms(2)] refl assms(1)]
  by (cases r) (auto simp: smtp_exit_def)

section \<open>Progress of the provider API \<open>sendEmail\<close>\<close>

lemma getZohoAccessToken_run:
  "getZohoAccessToken env i s w =
     ((case token_endpoint env i s of
         Inl error \<Rightarrow> Inl (Error (''Failed to get Zoho access token: '' @ describe error))
       | Inr access_token \<Rightarrow> Inr access_token),
      w\<lparr>trace := trace w @ [TokenPost i s]\<rparr>)"
  by (simp add: getZohoAccessToken_def emit_def split: sum.splits)

lemma getZohoAccountId_run:
  "getZohoAccountId env tok w =
     (fst (getZohoAccountId env tok w0), w\<lparr>trace := trace w @ [AccountsGet tok]\<rparr>)"
  by (simp add: getZohoAccountId_def accounts_get_def io_defs split: sum.splits option.splits)

lemma post_message_run:
  "post_message env a t m w =
     ((case messages_endpoint env a t m of Some e \<Rightarrow> Inl e | None \<Rightarrow> Inr ()),
      w\<lparr>trace := trace w @ [MessagesPost a m]\<rparr>)"
  by (simp add: post_message_def emit_def split: option.splits)

lemma found_credential_triple:
  "triple P (found_credential found) (\<lambda>c w. P w \<and> found = Some c) (\<lambda>_. P)"
  by (rule tripleI) (auto simp: found_credential_def io_defs split: option.splits)

lemma uploads_quiet:
  "\<not> list_ex is_dispatch
       (case atts of None \<Rightarrow> [] | Some xs \<Rightarrow> map (\<lambda>att. AttachmentPost a (filename att)) xs)"
  "filter is_create
     (case atts of None \<Rightarrow> [] | Some xs \<Rightarrow> map (\<lambda>att. AttachmentPost a (filename att)) xs) = []"
  by (auto simp: list_ex_iff filter_empty_conv split: option.splits)

lemma post_message_progress:
  "triple (progress tr0 d0 s cr False) (post_message env a t m)
     (\<lambda>_. progress tr0 d0 s cr True) (\<lambda>_. progress tr0 d0 s cr True)"
proof -
  have "progress tr0 d0 s cr True w'"
    if p: "progress tr0 d0 s cr False w" and r: "post_message env a t m w = (x, w')" for w x w'
  proof -
    from r have w': "w' = w\<lparr>trace := trace w @ [MessagesPost a m]\<rparr>"
      by (simp add: post_message_run)
    show ?thesis
      by (rule progress_dispatch[OF p, where ev = "MessagesPost a m"]) (simp_all add: w')
  qed
  then show ?thesis by (intro tripleI)
qed

lemma zoho_try_progress:
  "triple (progress tr0 d0 s0 [] False) (zoho_try env cid msg)
     (\<lambda>_. zoho_reached env cid tr0 d0 s0) (\<lambda>_. zoho_exit env cid tr0 d0 s0)"
  unfolding zoho_try_def
  apply (rule triple_bind[where R = "\<lambda>_ w. progress tr0 d0 s0 [] False w \<and> transaction w \<noteq> None"])
   apply (rule triple_weaken[OF query_quiet[of BEGIN tr0 d0 s0 "[]" env]])
      apply (auto simp: zoho_exit_def)[4]
  apply (rule triple_bind[where R = "\<lambda>_. progress tr0 d0 s0 [] False"])
   apply (rule triple_weaken[OF insert_quiet[of tr0 d0 s0 "[]"]])
     apply (auto simp: zoho_exit_def)[3]
  apply (rule triple_bind[where R = "\<lambda>found w. findById env cid = Inr found \<and>
           progress tr0 d0 s0 [] False w"])
   apply (rule triple_weaken[OF triple_events[OF repo_findById_run,
            where P = "progress tr0 d0 s0 [] False" and Q = "progress tr0 d0 s0 [] False"]])
      apply (auto simp: zoho_exit_def progress_trace)[4]
  apply (rule triple_bind[where R = "\<lambda>c w. findById env cid = Inr (Some c) \<and>
           progress tr0 d0 s0 [] False w"])
   apply (rule triple_weaken[OF found_credential_triple[where P = "\<lambda>w. findById env cid = Inr x \<and>
           progress tr0 d0 s0 [] False w" for x]])
     apply (auto simp: zoho_exit_def)[3]
  apply (rule triple_assume)
  apply (rule triple_bind[where R = "\<lambda>_. progress tr0 d0 s0 [] False"])
   apply (rule triple_weaken[OF triple_events[OF getZohoAccessToken_run,
            where P = "progress tr0 d0 s0 [] False" and Q = "progress tr0 d0 s0 [] False"]])
      apply (auto simp: zoho_exit_def progress_trace)[4]
  apply (rule triple_bind[where R = "\<lambda>_. progress tr0 d0 s0 [] False"])
   apply (rule triple_weaken[OF triple_events[OF getZohoAccountId_run,
            where P = "progress tr0 d0 s0 [] False" and Q = "progress tr0 d0 s0 [] False"]])
      apply (auto simp: zoho_exit_def progress_trace)[4]
  apply (rule triple_bind[where R = "\<lambda>_. progress tr0 d0 s0 [] False"])
   apply (rule triple_weaken[OF triple_events[OF stage_attachments_run[OF refl],
            where P = "progress tr0 d0 s0 [] False" and Q = "progress tr0 d0 s0 [] False"]])
      apply (auto simp: zoho_exit_def progress_trace uploads_quiet)[4]
  apply (rule triple_bind[where R = "\<lambda>_. progress tr0 d0 s0 [] True"])
   apply (rule triple_weaken[OF post_message_progress[of tr0 d0 s0 "[]"]])
     apply (auto simp: zoho_exit_def zoho_reached_def)[3]
  apply (rule triple_bind[where R = "\<lambda>_. progress tr0 d0 s0 [] True"])
   apply (rule triple_weaken[OF query_after_dispatch[of tr0 d0 s0 "[]"]])
     apply (auto simp: zoho_exit_def zoho_reached_def)[3]
  apply (rule triple_weaken[OF query_after_dispatch[of tr0 d0 s0 "[]"]])
    apply (auto simp: zoho_exit_def zoho_reached_def)
  done

lemma zoho_exit_rollback:
  "triple (zoho_exit env cid tr0 d0 s0) (rollback_and_wrap env e)
     (\<lambda>_. zoho_reached env cid tr0 d0 s0) (\<lambda>_. zoho_exit env cid tr0 d0 s0)"
proof (rule tripleI)
  fix w e' w' assume p: "zoho_exit env cid tr0 d0 s0 w"
    and r: "rollback_and_wrap env e w = (Inl e', w')"
  show "zoho_exit env cid tr0 d0 s0 w'"
    using p tripleD[OF rollback_progress _ r]
    unfolding zoho_exit_def zoho_reached_def by fastforce
next
  fix w x w' assume p: "zoho_exit env cid tr0 d0 s0 w"
    and r: "rollback_and_wrap env e w = (Inr x, w')"
  show "zoho_reached env cid tr0 d0 s0 w'"
    using p tripleD[OF rollback_progress _ r]
    unfolding zoho_exit_def zoho_reached_def by fastforce
qed

lemma zoho_release:
  "zoho_reached env cid tr0 d0 s0 w \<Longrightarrow> zoho_reached env cid tr0 d0 s0 (client_release w)"
  "zoho_exit env cid tr0 d0 s0 w \<Longrightarrow> zoho_exit env cid tr0 d0 s0 (client_release w)"
  unfolding zoho_exit_def zoho_reached_def by (auto intro: release_progress)

lemma zoho_sendEmail_progress:
  "triple (\<lambda>w. w = w0) (zoho_sendEmail env cid msg)
     (\<lambda>_. zoho_reached env cid (trace w0) (database w0) (svc w0))
     (\<lambda>_. zoho_exit env cid (trace w0) (database w0) (svc w0))"
  unfolding zoho_sendEmail_def
  apply (rule triple_bind[where R = "\<lambda>_. progress (trace w0) (database w0) (svc w0) [] False"])
   apply (rule triple_weaken[OF connect_progress[of w0 env]])
     apply (auto simp: zoho_exit_def)[3]
  apply (rule triple_finally[where Q' = "\<lambda>_. zoho_reached env cid (trace w0) (database w0) (svc w0)"
           and E' = "\<lambda>_. zoho_exit env cid (trace w0) (database w0) (svc w0)"])
    apply (rule triple_catch[OF zoho_try_progress zoho_exit_rollback])
   apply (erule zoho_release)+
  done

text \<open>Every run of the provider API \<open>sendEmail\<close>.\<close>

lemma zoho_summary:
  assumes "zoho_sendEmail env cid msg w = (r, w')"
  shows "zoho_reached env cid (trace w) (database w) (svc w) w'
         \<or> (isl r \<and> progress (trace w) (database w) (svc w) [] False w')"
  using tripleD[OF zoho_sendEmail_progress refl assms]
  by (cases r) (auto simp: zoho_exit_def)

section \<open>The concrete runs\<close>

lemma ex_facts:
  "db_ok ex_env" "db_ok ex_rejecting"
  "usable_smtp ex_credential"
  "findById ex_env ''c1'' = Inr (Some ex_credential)"
  "findById ex_rejecting ''c1'' = Inr (Some ex_credential)"
  "findById ex_env ''c2'' = Inr None"
  "service_ok (svc ex_world)"
  by (simp_all add: db_ok_def ex_env_def ex_rejecting_def usable_smtp_def ex_credential_def
        truthy_string_def truthy_number_def service_ok_def ex_world_def)

lemma ex_transporter:
  "transporter (svc (snd (update_transporter ''c1'' ex_credential ex_world)))
     = Some (createTransport ex_credential)"
  by (simp add: update_transporter_def ex_world_def emit_def)

lemma ex_provider:
  "token_endpoint ex_env (username c) (password c) = Inr ''token''"
  "accounts_endpoint ex_env ''token'' = Inr \<lparr>first_accountId = Some ''acct'', accounts_json = ''{}''\<rparr>"
  "token_endpoint ex_rejecting (username c) (password c) = Inr ''token''"
  "accounts_endpoint ex_rejecting ''token''
     = Inr \<lparr>first_accountId = Some ''acct'', accounts_json = ''{}''\<rparr>"
  "fst (stage_attachments ex_env ''acct'' ''token'' ex_message ex_world) = Inr []"
  "fst (stage_attachments ex_rejecting ''acct'' ''token'' ex_message ex_world) = Inr []"
  by (simp_all add: ex_env_def ex_rejecting_def stage_attachments_def ex_message_def io_return_def)

section \<open>Recording the outcome of the dispatch\<close>

text \<open>
  C3. On a healthy database, with a credential that passes the checks of the service and a
  transport that accepts the mail, \<open>sendEmail\<close> returns normally, the committed
  \<open>outgoing_messages\<close> table is the old one followed by exactly one new row, that row has
  status \<open>sent\<close> and the current timestamp as \<open>sent_at\<close>, and no transaction is left open.
  This holds for the SMTP service and for the provider API service.
\<close>

theorem sendEmail_success_recorded:
  "(db_ok env \<and> findById env cid = Inr (Some c) \<and> usable_smtp c
      \<and> transporter (svc (snd (update_transporter cid c w))) = Some t
      \<and> sendMail env t \<lparr>mail_from = username c, mail_message = msg\<rparr> = None
    \<longrightarrow> fst (smtp_sendEmail env cid msg w) = Inr ()
      \<and> outgoing_messages (database (snd (smtp_sendEmail env cid msg w))) =
          outgoing_messages (database w) @
            [(smtp_pending_row cid msg)\<lparr>om_id := next_id (outgoing_messages (database w)),
                 status := sent, sent_at := Some (current_timestamp env)\<rparr>]
      \<and> transaction (snd (smtp_sendEmail env cid msg w)) = None)
   \<and> (db_ok env \<and> findById env cid = Inr (Some c)
      \<and> token_endpoint env (username c) (password c) = Inr tok
      \<and> accounts_endpoint env tok = Inr resp \<and> first_accountId resp = Some acct \<and> acct \<noteq> []
      \<and> fst (stage_attachments env acct tok msg w) = Inr ds
      \<and> messages_endpoint env acct tok (zoho_request c msg ds) = None
    \<longrightarrow> fst (zoho_sendEmail env cid msg w) = Inr ()
      \<and> outgoing_messages (database (snd (zoho_sendEmail env cid msg w))) =
          outgoing_messages (database w) @
            [(zoho_pending_row cid msg)\<lparr>om_id := next_id (outgoing_messages (database w)),
                 status := sent, sent_at := Some (current_timestamp env)\<rparr>]
      \<and> transaction (snd (zoho_sendEmail env cid msg w)) = None)"
proof (intro conjI impI)
  assume h: "db_ok env \<and> findById env cid = Inr (Some c) \<and> usable_smtp c
      \<and> transporter (svc (snd (update_transporter cid c w))) = Some t
      \<and> sendMail env t \<lparr>mail_from = username c, mail_message = msg\<rparr> = None"
  then have a: "db_ok env" "findById env cid = Inr (Some c)" "usable_smtp c"
      "transporter (svc (snd (update_transporter cid c w))) = Some t"
      "sendMail env t \<lparr>mail_from = username c, mail_message = msg\<rparr> = None"
    by simp_all
  show "fst (smtp_sendEmail env cid msg w) = Inr ()"
    by (rule smtp_success(1)[OF a])
  show "outgoing_messages (database (snd (smtp_sendEmail env cid msg w))) =
          outgoing_messages (database w) @
            [(smtp_pending_row cid msg)\<lparr>om_id := next_id (outgoing_messages (database w)),
                 status := sent, sent_at := Some (current_timestamp env)\<rparr>]"
    by (simp add: smtp_success(2)[OF a])
  show "transaction (snd (smtp_sendEmail env cid msg w)) = None"
    by (rule smtp_success(3)[OF a])
next
  assume h: "db_ok env \<and> findById env cid = Inr (Some c)
      \<and> token_endpoint env (username c) (password c) = Inr tok
      \<and> accounts_endpoint env tok = Inr resp \<and> first_accountId resp = Some acct \<and> acct \<noteq> []
      \<and> fst (stage_attachments env acct tok msg w) = Inr ds
      \<and> messages_endpoint env acct tok (zoho_request c msg ds) = None"
  then have a: "db_ok env" "findById env cid = Inr (Some c)"
      "token_endpoint env (username c) (password c) = Inr tok"
      "accounts_endpoint env tok = Inr resp" "first_accountId resp = Some acct" "acct \<noteq> []"
      "fst (stage_attachments env acct tok msg w) = Inr ds"
      "messages_endpoint env acct tok (zoho_request c msg ds) = None"
    by simp_all
  show "fst (zoho_sendEmail env cid msg w) = Inr ()"
    by (rule zoho_success(1)[OF a])
  show "outgoing_messages (database (snd (zoho_sendEmail env cid msg w))) =
          outgoing_messages (database w) @
            [(zoho_pending_row cid msg)\<lparr>om_id := next_id (outgoing_messages (database w)),
                 status := sent, sent_at := Some (current_timestamp env)\<rparr>]"
    by (simp add: zoho_success(2)[OF a])
  show "transaction (snd (zoho_sendEmail env cid msg w)) = None"
    by (rule zoho_success(3)[OF a])
qed

theorem sendEmail_success_recorded_witness:
  "fst (smtp_sendEmail ex_env ''c1'' ex_message ex_world) = Inr ()
   \<and> map status (outgoing_messages (database (snd (smtp_sendEmail ex_env ''c1'' ex_message ex_world))))
       = [sent]
   \<and> map sent_at (outgoing_messages (database (snd (smtp_sendEmail ex_env ''c1'' ex_message ex_world))))
       = [Some 1000]
   \<and> fst (zoho_sendEmail ex_env ''c1'' ex_message ex_world) = Inr ()
   \<and> map status (outgoing_messages (database (snd (zoho_sendEmail ex_env ''c1'' ex_message ex_world))))
       = [sent]
   \<and> map sent_at (outgoing_messages (database (snd (zoho_sendEmail ex_env ''c1'' ex_message ex_world))))
       = [Some 1000]"
proof -
  have s: "db_ok ex_env \<and> findById ex_env ''c1'' = Inr (Some ex_credential) \<and> usable_smtp ex_credential
      \<and> transporter (svc (snd (update_transporter ''c1'' ex_credential ex_world)))
          = Some (createTransport ex_credential)
      \<and> sendMail ex_env (createTransport ex_credential)
          \<lparr>mail_from = username ex_credential, mail_message = ex_message\<rparr> = None"
    using ex_facts ex_transporter by (simp add: ex_env_def)
  have z: "db_ok ex_env \<and> findById ex_env ''c1'' = Inr (Some ex_credential)
      \<and> token_endpoint ex_env (username ex_credential) (password ex_credential) = Inr ''token''
      \<and> accounts_endpoint ex_env ''token''
          = Inr \<lparr>first_accountId = Some ''acct'', accounts_json = ''{}''\<rparr>
      \<and> first_accountId \<lparr>first_accountId = Some ''acct'', accounts_json = ''{}''\<rparr> = Some ''acct''
      \<and> ''acct'' \<noteq> []
      \<and> fst (stage_attachments ex_env ''acct'' ''token'' ex_message ex_world) = Inr []
      \<and> messages_endpoint ex_env ''acct'' ''token'' (zoho_request ex_credential ex_message []) = None"
    using ex_facts ex_provider by (simp add: ex_env_def)
  from sendEmail_success_recorded
         [of ex_env "''c1''" ex_credential ex_world "createTransport ex_credential" ex_message
             "''token''" "\<lparr>first_accountId = Some ''acct'', accounts_json = ''{}''\<rparr>" "''acct''" "[]"]
       s z
  show ?thesis
    by (simp add: ex_world_def ex_env_def)
qed

text \<open>
  C1, as the SMTP service does it. On a healthy database, with a credential that passes
  the checks, when the transporter rejects the mail with \<open>cause\<close>: the call raises
  \<open>Failed to send email: \<close> followed by the text of the cause, the committed
  \<open>outgoing_messages\<close> table is the old one followed by exactly one new row, that row has
  status \<open>failed\<close> and the text of the cause as \<open>error_message\<close>, and no transaction is left
  open.
\<close>

theorem smtp_dispatch_failure_recorded:
  assumes "db_ok env" "findById env cid = Inr (Some c)" "usable_smtp c"
      and "transporter (svc (snd (update_transporter cid c w))) = Some t"
      and "sendMail env t \<lparr>mail_from = username c, mail_message = msg\<rparr> = Some cause"
  shows "fst (smtp_sendEmail env cid msg w) =
           Inl (Error (''Failed to send email: '' @ describe cause))
         \<and> outgoing_messages (database (snd (smtp_sendEmail env cid msg w))) =
             outgoing_messages (database w) @
               [(smtp_pending_row cid msg)\<lparr>om_id := next_id (outgoing_messages (database w)),
                    status := failed, error_message := Some (describe cause)\<rparr>]
         \<and> transaction (snd (smtp_sendEmail env cid msg w)) = None"
  using smtp_rejected[OF assms] by simp

theorem smtp_dispatch_failure_recorded_witness:
  "fst (smtp_sendEmail ex_rejecting ''c1'' ex_message ex_world) =
     Inl (Error ''Failed to send email: rejected'')
   \<and> map status
       (outgoing_messages (database (snd (smtp_sendEmail ex_rejecting ''c1'' ex_message ex_world))))
       = [failed]
   \<and> map error_message
       (outgoing_messages (database (snd (smtp_sendEmail ex_rejecting ''c1'' ex_message ex_world))))
       = [Some ''rejected'']"
proof -
  have "sendMail ex_rejecting (createTransport ex_credential)
          \<lparr>mail_from = username ex_credential, mail_message = ex_message\<rparr> = Some (Error ''rejected'')"
    by (simp add: ex_rejecting_def)
  from smtp_dispatch_failure_recorded
         [OF ex_facts(2) ex_facts(5) ex_facts(3) ex_transporter this]
  show ?thesis
    by (simp add: ex_world_def describe_def)
qed

text \<open>
  The provider API service does not record the failure: when the provider rejects the
  mail, the call raises the wrapped error and the transaction is rolled back, so no row
  exists afterward.
\<close>

theorem zoho_dispatch_failure_not_recorded:
  "messages_endpoint ex_rejecting ''acct'' ''token'' (zoho_request ex_credential ex_message [])
     = Some (Error ''rejected'')
   \<and> list_ex is_dispatch (trace (snd (zoho_sendEmail ex_rejecting ''c1'' ex_message ex_world)))
   \<and> fst (zoho_sendEmail ex_rejecting ''c1'' ex_message ex_world)
       = Inl (Error ''Failed to send email: rejected'')
   \<and> outgoing_messages (database (snd (zoho_sendEmail ex_rejecting ''c1'' ex_message ex_world))) = []"
proof -
  have m: "messages_endpoint ex_rejecting ''acct'' ''token''
             (zoho_request ex_credential ex_message []) = Some (Error ''rejected'')"
    by (simp add: ex_rejecting_def)
  have r: "first_accountId \<lparr>first_accountId = Some ''acct'', accounts_json = ''{}''\<rparr> = Some ''acct''"
          "''acct'' \<noteq> []"
    by simp_all
  note z = zoho_rejected[OF ex_facts(2) ex_facts(5) ex_provider(3) ex_provider(4) r ex_provider(6) m]
  show ?thesis
    using m z by (simp add: ex_world_def describe_def ex_message_def)
qed

section \<open>Resolving the credential\<close>

lemma validate_credential_throws:
  "validate_credential None = io_throw (Error ''Credential not found'')"
  "cred_type c \<noteq> email \<Longrightarrow>
   validate_credential (Some c) =
     io_throw (Error ''Invalid credential type: not an email credential'')"
  "cred_type c = email \<Longrightarrow>
   \<not> truthy_string (host c) \<or> \<not> truthy_number (port c) \<or> secure c = None \<Longrightarrow>
   validate_credential (Some c) =
     io_throw (Error ''Invalid email credential: missing required SMTP configuration'')"
  by (auto simp: validate_credential_def)

lemma inserts_quiet:
  "\<not> list_ex is_dispatch (map (\<lambda>a. Query (INSERT_attachment a) None) as)"
  by (simp add: list_ex_iff)

lemma smtp_unusable_quiet:
  assumes "db_ok env" "findById env cid = Inr found" "validate_credential found = io_throw e"
  shows "fst (smtp_sendEmail env cid msg w) = Inl (Error (''Failed to send email: '' @ describe e))"
    and "\<not> list_ex is_dispatch (call_events w (snd (smtp_sendEmail env cid msg w)))"
    and "database (snd (smtp_sendEmail env cid msg w)) = database w"
  by (simp_all add: smtp_unusable[OF assms] call_events_def inserts_quiet)

text \<open>
  C4, as the two services do it. On a healthy database the SMTP \<open>sendEmail\<close> raises
  \<open>Failed to send email: Credential not found\<close> when the repository has no credential of
  the given id, \<open>... Invalid credential type: not an email credential\<close> when the
  credential's type is not \<open>email\<close>, and \<open>... Invalid email credential: missing required
  SMTP configuration\<close> when the host or the port is missing or falsy or the secure flag is
  undefined; in each case the mail is not handed to a transport. The provider API
  \<open>sendEmail\<close> makes the first check only.
\<close>

theorem credential_resolution_failures:
  assumes "db_ok env"
  shows "(findById env cid = Inr None \<longrightarrow>
            fst (smtp_sendEmail env cid msg w)
              = Inl (Error ''Failed to send email: Credential not found'')
            \<and> \<not> list_ex is_dispatch (call_events w (snd (smtp_sendEmail env cid msg w))))
       \<and> (findById env cid = Inr (Some c) \<and> cred_type c \<noteq> email \<longrightarrow>
            fst (smtp_sendEmail env cid msg w)
              = Inl (Error ''Failed to send email: Invalid credential type: not an email credential'')
            \<and> \<not> list_ex is_dispatch (call_events w (snd (smtp_sendEmail env cid msg w))))
       \<and> (findById env cid = Inr (Some c) \<and> cred_type c = email
            \<and> (\<not> truthy_string (host c) \<or> \<not> truthy_number (port c) \<or> secure c = None) \<longrightarrow>
            fst (smtp_sendEmail env cid msg w)
              = Inl (Error ''Failed to send email: Invalid email credential: missing required SMTP configuration'')
            \<and> \<not> list_ex is_dispatch (call_events w (snd (smtp_sendEmail env cid msg w))))
       \<and> (findById env cid = Inr None \<longrightarrow>
            fst (zoho_sendEmail env cid msg w)
              = Inl (Error ''Failed to send email: Credential not found'')
            \<and> \<not> list_ex is_dispatch (call_events w (snd (zoho_sendEmail env cid msg w))))"
proof (intro conjI impI)
  assume f: "findById env cid = Inr None"
  from smtp_unusable_quiet[OF assms f validate_credential_throws(1)]
  show "fst (smtp_sendEmail env cid msg w)
          = Inl (Error ''Failed to send email: Credential not found'')"
       "\<not> list_ex is_dispatch (call_events w (snd (smtp_sendEmail env cid msg w)))"
    by (simp_all add: describe_def)
  show "fst (zoho_sendEmail env cid msg w)
          = Inl (Error ''Failed to send email: Credential not found'')"
       "\<not> list_ex is_dispatch (call_events w (snd (zoho_sendEmail env cid msg w)))"
    by (simp_all add: zoho_not_found[OF assms f] call_events_def)
next
  assume "findById env cid = Inr (Some c) \<and> cred_type c \<noteq> email"
  then have f: "findById env cid = Inr (Some c)" and t: "cred_type c \<noteq> email" by simp_all
  from smtp_unusable_quiet[OF assms f validate_credential_throws(2)[OF t]]
  show "fst (smtp_sendEmail env cid msg w)
          = Inl (Error ''Failed to send email: Invalid credential type: not an email credential'')"
       "\<not> list_ex is_dispatch (call_events w (snd (smtp_sendEmail env cid msg w)))"
    by (simp_all add: describe_def)
next
  assume "findById env cid = Inr (Some c) \<and> cred_type c = email
            \<and> (\<not> truthy_string (host c) \<or> \<not> truthy_number (port c) \<or> secure c = None)"
  then have f: "findById env cid = Inr (Some c)" and t: "cred_type c = email"
    and m: "\<not> truthy_string (host c) \<or> \<not> truthy_number (port c) \<or> secure c = None"
    by simp_all
  from smtp_unusable_quiet[OF assms f validate_credential_throws(3)[OF t m]]
  show "fst (smtp_sendEmail env cid msg w)
          = Inl (Error ''Failed to send email: Invalid email credential: missing required SMTP configuration'')"
       "\<not> list_ex is_dispatch (call_events w (snd (smtp_sendEmail env cid msg w)))"
    by (simp_all add: describe_def)
qed

theorem credential_resolution_failures_witness:
  "fst (smtp_sendEmail ex_env ''c2'' ex_message ex_world)
     = Inl (Error ''Failed to send email: Credential not found'')
   \<and> fst (smtp_sendEmail ex_env ''c9'' ex_message ex_world)
     = Inl (Error ''Failed to send email: Invalid credential type: not an email credential'')
   \<and> fst (smtp_sendEmail ex_env ''c8'' ex_message ex_world)
     = Inl (Error ''Failed to send email: Invalid email credential: missing required SMTP configuration'')
   \<and> fst (zoho_sendEmail ex_env ''c2'' ex_message ex_world)
     = Inl (Error ''Failed to send email: Credential not found'')"
proof -
  have c9: "findById ex_env ''c9'' = Inr (Some ex_sms_credential) \<and> cred_type ex_sms_credential \<noteq> email"
    by (simp add: ex_env_def ex_sms_credential_def)
  have c8: "findById ex_env ''c8'' = Inr (Some (ex_credential\<lparr>secure := None\<rparr>))
            \<and> cred_type (ex_credential\<lparr>secure := None\<rparr>) = email
            \<and> (\<not> truthy_string (host (ex_credential\<lparr>secure := None\<rparr>))
               \<or> \<not> truthy_number (port (ex_credential\<lparr>secure := None\<rparr>))
               \<or> secure (ex_credential\<lparr>secure := None\<rparr>) = None)"
    by (simp add: ex_env_def ex_credential_def)
  from credential_resolution_failures[OF ex_facts(1), of "''c2''" ex_message ex_world ex_credential]
       credential_resolution_failures[OF ex_facts(1), of "''c9''" ex_message ex_world ex_sms_credential]
       credential_resolution_failures[OF ex_facts(1), of "''c8''" ex_message ex_world
                                        "ex_credential\<lparr>secure := None\<rparr>"]
       ex_facts(6) c9 c8
  show ?thesis by blast
qed

text \<open>
  The provider API service accepts the SMS credential \<open>c9\<close>, which has no host, port or
  secure flag: the mail is handed to the provider and the call returns normally.
\<close>

theorem zoho_accepts_other_credentials:
  "findById ex_env ''c9'' = Inr (Some ex_sms_credential)
   \<and> cred_type ex_sms_credential = sms \<and> host ex_sms_credential = None
   \<and> fst (zoho_sendEmail ex_env ''c9'' ex_message ex_world) = Inr ()
   \<and> list_ex is_dispatch (trace (snd (zoho_sendEmail ex_env ''c9'' ex_message ex_world)))"
proof -
  have f: "findById ex_env ''c9'' = Inr (Some ex_sms_credential)"
    by (simp add: ex_env_def ex_sms_credential_def)
  have m: "messages_endpoint ex_env ''acct'' ''token''
             (zoho_request ex_sms_credential ex_message []) = None"
    by (simp add: ex_env_def)
  have r: "first_accountId \<lparr>first_accountId = Some ''acct'', accounts_json = ''{}''\<rparr> = Some ''acct''"
          "''acct'' \<noteq> []"
    by simp_all
  note z = zoho_success[OF ex_facts(1) f ex_provider(1) ex_provider(2) r ex_provider(5) m]
  show ?thesis
    using f z(1) z(5) by (simp add: ex_sms_credential_def ex_world_def ex_message_def)
qed

section \<open>The two services compared\<close>

lemma pending_rows:
  "zoho_pending_row cid msg =
     (smtp_pending_row cid msg)
       \<lparr>om_cc := None, om_bcc := None, reply_to := None,
        body_text := Some (case msg_text msg of None \<Rightarrow> [] | Some t \<Rightarrow> t),
        body_html := Some (case msg_html msg of None \<Rightarrow> [] | Some h \<Rightarrow> h)\<rparr>"
  by (simp add: zoho_pending_row_def smtp_pending_row_def)

text \<open>
  C8, as far as it holds. On a healthy database the two services agree when the
  credential does not exist: the same wrapped error, and the committed tables unchanged.
  When both dispatch successfully, both return normally and each commits exactly one new
  row; the provider API's row is the SMTP row without \<open>cc\<close>, \<open>bcc\<close> and \<open>reply_to\<close> and
  with empty strings for the missing bodies, and the provider API service stores no
  attachment rows.
\<close>

theorem services_agree_in_part:
  "(db_ok env \<and> findById env cid = Inr None \<longrightarrow>
      fst (smtp_sendEmail env cid msg w) = fst (zoho_sendEmail env cid msg w)
      \<and> database (snd (smtp_sendEmail env cid msg w)) = database w
      \<and> database (snd (zoho_sendEmail env cid msg w)) = database w)
   \<and> (db_ok env \<and> findById env cid = Inr (Some c) \<and> usable_smtp c
      \<and> transporter (svc (snd (update_transporter cid c w))) = Some t
      \<and> sendMail env t \<lparr>mail_from = username c, mail_message = msg\<rparr> = None
      \<and> token_endpoint env (username c) (password c) = Inr tok
      \<and> accounts_endpoint env tok = Inr resp \<and> first_accountId resp = Some acct \<and> acct \<noteq> []
      \<and> fst (stage_attachments env acct tok msg w) = Inr ds
      \<and> messages_endpoint env acct tok (zoho_request c msg ds) = None
    \<longrightarrow> fst (smtp_sendEmail env cid msg w) = Inr ()
      \<and> fst (zoho_sendEmail env cid msg w) = Inr ()
      \<and> outgoing_messages (database (snd (smtp_sendEmail env cid msg w))) =
          outgoing_messages (database w) @
            [(smtp_pending_row cid msg)\<lparr>om_id := next_id (outgoing_messages (database w)),
                 status := sent, sent_at := Some (current_timestamp env)\<rparr>]
      \<and> outgoing_messages (database (snd (zoho_sendEmail env cid msg w))) =
          outgoing_messages (database w) @
            [(smtp_pending_row cid msg)
               \<lparr>om_id := next_id (outgoing_messages (database w)),
                status := sent, sent_at := Some (current_timestamp env),
                om_cc := None, om_bcc := None, reply_to := None,
                body_text := Some (case msg_text msg of None \<Rightarrow> [] | Some t \<Rightarrow> t),
                body_html := Some (case msg_html msg of None \<Rightarrow> [] | Some h \<Rightarrow> h)\<rparr>]
      \<and> message_attachments (database (snd (zoho_sendEmail env cid msg w)))
          = message_attachments (database w))"
proof (intro conjI impI)
  assume "db_ok env \<and> findById env cid = Inr None"
  then have ok: "db_ok env" and f: "findById env cid = Inr None" by simp_all
  note s = smtp_unusable_quiet[OF ok f validate_credential_throws(1), where msg = msg and w = w]
  show "fst (smtp_sendEmail env cid msg w) = fst (zoho_sendEmail env cid msg w)"
    by (simp add: s(1) zoho_not_found[OF ok f] describe_def)
  show "database (snd (smtp_sendEmail env cid msg w)) = database w"
    by (rule s(3))
  show "database (snd (zoho_sendEmail env cid msg w)) = database w"
    by (simp add: zoho_not_found[OF ok f])
next
  assume h: "db_ok env \<and> findById env cid = Inr (Some c) \<and> usable_smtp c
      \<and> transporter (svc (snd (update_transporter cid c w))) = Some t
      \<and> sendMail env t \<lparr>mail_from = username c, mail_message = msg\<rparr> = None
      \<and> token_endpoint env (username c) (password c) = Inr tok
      \<and> accounts_endpoint env tok = Inr resp \<and> first_accountId resp = Some acct \<and> acct \<noteq> []
      \<and> fst (stage_attachments env acct tok msg w) = Inr ds
      \<and> messages_endpoint env acct tok (zoho_request c msg ds) = None"
  then have a: "db_ok env" "findById env cid = Inr (Some c)" "usable_smtp c"
      "transporter (svc (snd (update_transporter cid c w))) = Some t"
      "sendMail env t \<lparr>mail_from = username c, mail_message = msg\<rparr> = None"
    by simp_all
  from h have b: "db_ok env" "findById env cid = Inr (Some c)"
      "token_endpoint env (username c) (password c) = Inr tok"
      "accounts_endpoint env tok = Inr resp" "first_accountId resp = Some acct" "acct \<noteq> []"
      "fst (stage_attachments env acct tok msg w) = Inr ds"
      "messages_endpoint env acct tok (zoho_request c msg ds) = None"
    by simp_all
  show "fst (smtp_sendEmail env cid msg w) = Inr ()"
    by (rule smtp_success(1)[OF a])
  show "fst (zoho_sendEmail env cid msg w) = Inr ()"
    by (rule zoho_success(1)[OF b])
  show "outgoing_messages (database (snd (smtp_sendEmail env cid msg w))) =
          outgoing_messages (database w) @
            [(smtp_pending_row cid msg)\<lparr>om_id := next_id (outgoing_messages (database w)),
                 status := sent, sent_at := Some (current_timestamp env)\<rparr>]"
    by (simp add: smtp_success(2)[OF a])
  show "outgoing_messages (database (snd (zoho_sendEmail env cid msg w))) =
          outgoing_messages (database w) @
            [(smtp_pending_row cid msg)
               \<lparr>om_id := next_id (outgoing_messages (database w)),
                status := sent, sent_at := Some (current_timestamp env),
                om_cc := None, om_bcc := None, reply_to := None,
                body_text := Some (case msg_text msg of None \<Rightarrow> [] | Some t \<Rightarrow> t),
                body_html := Some (case msg_html msg of None \<Rightarrow> [] | Some h \<Rightarrow> h)\<rparr>]"
    by (simp add: zoho_success(2)[OF b] pending_rows)
  show "message_attachments (database (snd (zoho_sendEmail env cid msg w)))
          = message_attachments (database w)"
    by (simp add: zoho_success(2)[OF b])
qed

theorem services_agree_in_part_witness:
  "fst (smtp_sendEmail ex_env ''c2'' ex_message ex_world)
     = fst (zoho_sendEmail ex_env ''c2'' ex_message ex_world)
   \<and> database (snd (smtp_sendEmail ex_env ''c2'' ex_message ex_world)) = database ex_world
   \<and> database (snd (zoho_sendEmail ex_env ''c2'' ex_message ex_world)) = database ex_world
   \<and> fst (smtp_sendEmail ex_env ''c1'' ex_message ex_world) = Inr ()
   \<and> fst (zoho_sendEmail ex_env ''c1'' ex_message ex_world) = Inr ()"
proof -
  have n: "db_ok ex_env \<and> findById ex_env ''c2'' = Inr None"
    using ex_facts by simp
  have b: "db_ok ex_env \<and> findById ex_env ''c1'' = Inr (Some ex_credential) \<and> usable_smtp ex_credential
      \<and> transporter (svc (snd (update_transporter ''c1'' ex_credential ex_world)))
          = Some (createTransport ex_credential)
      \<and> sendMail ex_env (createTransport ex_credential)
          \<lparr>mail_from = username ex_credential, mail_message = ex_message\<rparr> = None
      \<and> token_endpoint ex_env (username ex_credential) (password ex_credential) = Inr ''token''
      \<and> accounts_endpoint ex_env ''token''
          = Inr \<lparr>first_accountId = Some ''acct'', accounts_json = ''{}''\<rparr>
      \<and> first_accountId \<lparr>first_accountId = Some ''acct'', accounts_json = ''{}''\<rparr> = Some ''acct''
      \<and> ''acct'' \<noteq> []
      \<and> fst (stage_attachments ex_env ''acct'' ''token'' ex_message ex_world) = Inr []
      \<and> messages_endpoint ex_env ''acct'' ''token'' (zoho_request ex_credential ex_message []) = None"
    using ex_facts ex_transporter ex_provider by (simp add: ex_env_def)
  from services_agree_in_part
         [of ex_env "''c2''" ex_message ex_world ex_credential "createTransport ex_credential"
             "''token''" "\<lparr>first_accountId = Some ''acct'', accounts_json = ''{}''\<rparr>" "''acct''" "[]"]
       services_agree_in_part
         [of ex_env "''c1''" ex_message ex_world ex_credential "createTransport ex_credential"
             "''token''" "\<lparr>first_accountId = Some ''acct'', accounts_json = ''{}''\<rparr>" "''acct''" "[]"]
       n b
  show ?thesis by blast
qed

text \<open>
  The two services differ when both transports reject the same mail: both calls raise the
  same error, the SMTP service has committed a row and the provider API service has not.
\<close>

theorem services_differ_on_rejection:
  "fst (smtp_sendEmail ex_rejecting ''c1'' ex_message ex_world)
     = fst (zoho_sendEmail ex_rejecting ''c1'' ex_message ex_world)
   \<and> length (outgoing_messages
               (database (snd (smtp_sendEmail ex_rejecting ''c1'' ex_message ex_world)))) = 1
   \<and> length (outgoing_messages
               (database (snd (zoho_sendEmail ex_rejecting ''c1'' ex_message ex_world)))) = 0
   \<and> database (snd (smtp_sendEmail ex_rejecting ''c1'' ex_message ex_world))
       \<noteq> database (snd (zoho_sendEmail ex_rejecting ''c1'' ex_message ex_world))"
proof -
  have sm: "sendMail ex_rejecting (createTransport ex_credential)
          \<lparr>mail_from = username ex_credential, mail_message = ex_message\<rparr> = Some (Error ''rejected'')"
    by (simp add: ex_rejecting_def)
  have m: "messages_endpoint ex_rejecting ''acct'' ''token''
             (zoho_request ex_credential ex_message []) = Some (Error ''rejected'')"
    by (simp add: ex_rejecting_def)
  have r: "first_accountId \<lparr>first_accountId = Some ''acct'', accounts_json = ''{}''\<rparr> = Some ''acct''"
          "''acct'' \<noteq> []"
    by simp_all
  note s = smtp_rejected[OF ex_facts(2) ex_facts(5) ex_facts(3) ex_transporter sm]
  note z = zoho_rejected[OF ex_facts(2) ex_facts(5) ex_provider(3) ex_provider(4) r ex_provider(6) m]
  have l1: "length (outgoing_messages
               (database (snd (smtp_sendEmail ex_rejecting ''c1'' ex_message ex_world)))) = 1"
    using s(2) by (simp add: ex_world_def)
  have l0: "length (outgoing_messages
               (database (snd (zoho_sendEmail ex_rejecting ''c1'' ex_message ex_world)))) = 0"
    using z(2) by (simp add: ex_world_def)
  from l1 l0 have "database (snd (smtp_sendEmail ex_rejecting ''c1'' ex_message ex_world))
       \<noteq> database (snd (zoho_sendEmail ex_rejecting ''c1'' ex_message ex_world))"
    by auto
  with l1 l0 show ?thesis by (simp add: s(1) z(1))
qed

section \<open>Failing before the dispatch\<close>

lemma progress_events:
  assumes "progress (trace w) d0 s cr disp w'"
  shows "svc w' = s \<and> (disp \<or> database w' = d0)
         \<and> list_ex is_dispatch (call_events w w') = disp
         \<and> filter is_create (call_events w w') = cr
         \<and> (\<forall>t m. SendMail t m \<in> set (call_events w w') \<longrightarrow> transporter s = Some t)"
proof -
  from assms obtain evs where
    e: "trace w' = trace w @ evs" "list_ex is_dispatch evs = disp" "filter is_create evs = cr"
       "\<forall>t m. SendMail t m \<in> set evs \<longrightarrow> transporter s = Some t"
    and s: "svc w' = s" "disp \<or> database w' = d0"
    unfolding progress_def by blast
  from call_events_append[OF e(1)] e s show ?thesis by simp
qed

lemma smtp_quiet_run:
  assumes "smtp_sendEmail env cid msg w = (r, w')" "service_ok (svc w)"
      and "\<not> list_ex is_dispatch (call_events w w')"
  shows "isl r \<and> database w' = database w \<and> svc w' = svc w
         \<and> filter is_create (call_events w w') = []"
  using smtp_summary[OF assms(1,2)] assms(3)
  by (auto simp: smtp_reached_def dest!: progress_events)

lemma smtp_loud_run:
  assumes "smtp_sendEmail env cid msg w = (r, w')" "service_ok (svc w)"
      and "list_ex is_dispatch (call_events w w')"
  shows "\<exists>c. findById env cid = Inr (Some c) \<and> usable_smtp c \<and> svc w' = cached (svc w) cid c
             \<and> filter is_create (call_events w w') = constructions (svc w) cid c"
  using smtp_summary[OF assms(1,2)] assms(3)
  by (auto simp: smtp_reached_def dest!: progress_events)

lemma zoho_quiet_run:
  assumes "zoho_sendEmail env cid msg w = (r, w')"
      and "\<not> list_ex is_dispatch (call_events w w')"
  shows "isl r \<and> database w' = database w"
  using zoho_summary[OF assms(1)] assms(2)
  by (auto simp: zoho_reached_def dest!: progress_events)

lemma zoho_loud_run:
  assumes "zoho_sendEmail env cid msg w = (r, w')"
      and "list_ex is_dispatch (call_events w w')"
  shows "\<exists>c. findById env cid = Inr (Some c)"
  using zoho_summary[OF assms(1)] assms(2)
  by (auto simp: zoho_reached_def dest!: progress_events)

text \<open>The outer \<open>catch\<close> and the release of the client, after a \<open>try\<close> block that returned
  and after one that threw.\<close>

lemma returned:
  assumes "body w = (Inr x, w2)"
  shows "io_finally (io_catch body (rollback_and_wrap env)) client_release w =
           (Inr x, w2\<lparr>trace := trace w2 @ [Release]\<rparr>)"
  by (simp add: io_apply assms client_release_def emit_def)

lemma caught:
  assumes "body w = (Inl cause, w2)"
  shows "io_finally (io_catch body (rollback_and_wrap env)) client_release w =
           (case query_fault env (issued w2) of
              None \<Rightarrow>
                (Inl (Error (''Failed to send email: '' @ describe cause)),
                 w2\<lparr>transaction := None, issued := Suc (issued w2),
                    trace := trace w2 @ [Query ROLLBACK None, Release]\<rparr>)
            | Some e \<Rightarrow>
                (Inl e, w2\<lparr>issued := Suc (issued w2),
                           trace := trace w2 @ [Query ROLLBACK (Some e), Release]\<rparr>))"
  by (simp add: io_apply assms sendEmail_apply(3) client_query_def run_statement_def
        client_release_def emit_def split: option.splits)

lemma rolled_back:
  assumes run: "io_bind (db_connect env) (\<lambda>_.
                  io_finally (io_catch body (rollback_and_wrap env)) client_release) w = (r, w')"
      and c: "connect_fault env = None"
      and q: "\<not> list_ex is_dispatch (call_events w w')"
      and ret: "\<And>x w2. body (snd (db_connect env w)) = (Inr x, w2) \<Longrightarrow>
                  \<exists>evs. trace w2 = trace w @ Connect # evs \<and> list_ex is_dispatch evs"
      and thr: "\<And>e w2. body (snd (db_connect env w)) = (Inl e, w2) \<Longrightarrow>
                  \<exists>evs. trace w2 = trace w @ Connect # evs"
  shows "\<exists>cause out evs.
           fst (body (snd (db_connect env w))) = Inl cause
         \<and> call_events w w' = Connect # evs @ [Query ROLLBACK out, Release]
         \<and> (\<exists>n. out = query_fault env n)
         \<and> r = (case out of
                  None \<Rightarrow> Inl (Error (''Failed to send email: '' @ describe cause))
                | Some e \<Rightarrow> Inl e)
         \<and> (out = None \<longrightarrow> transaction w' = None)"
proof -
  obtain w1 where w1: "db_connect env w = (Inr (), w1)"
    using c by (simp add: db_connect_def)
  then have s: "snd (db_connect env w) = w1" by simp
  obtain b w2 where b: "body w1 = (b, w2)" by (cases "body w1")
  show ?thesis
  proof (cases b)
    case (Inr x)
    with b have bx: "body w1 = (Inr x, w2)" by simp
    from ret[unfolded s, OF bx] obtain evs where
      e: "trace w2 = trace w @ Connect # evs" "list_ex is_dispatch evs" by blast
    from run have "w' = w2\<lparr>trace := trace w2 @ [Release]\<rparr>"
      by (simp add: io_apply(1) w1 returned[where body = body, OF bx])
    with e have "call_events w w' = Connect # evs @ [Release]"
      by (simp add: call_events_def)
    with e(2) q show ?thesis by simp
  next
    case (Inl cause)
    with b have bc: "body w1 = (Inl cause, w2)" by simp
    from thr[unfolded s, OF bc] obtain evs where
      e: "trace w2 = trace w @ Connect # evs" by blast
    let ?out = "query_fault env (issued w2)"
    from run have r: "(r, w') =
        (case ?out of
           None \<Rightarrow>
             (Inl (Error (''Failed to send email: '' @ describe cause)),
              w2\<lparr>transaction := None, issued := Suc (issued w2),
                 trace := trace w2 @ [Query ROLLBACK None, Release]\<rparr>)
         | Some e \<Rightarrow>
             (Inl e, w2\<lparr>issued := Suc (issued w2),
                        trace := trace w2 @ [Query ROLLBACK (Some e), Release]\<rparr>))"
      by (simp add: io_apply(1) w1 caught[where body = body, OF bc])
    have 1: "fst (body (snd (db_connect env w))) = Inl cause" by (simp add: s bc)
    have 2: "call_events w w' = Connect # evs @ [Query ROLLBACK ?out, Release]"
      using r e by (cases ?out) (simp_all add: call_events_def)
    have 3: "r = (case ?out of
                    None \<Rightarrow> Inl (Error (''Failed to send email: '' @ describe cause))
                  | Some e \<Rightarrow> Inl e)"
      using r by (cases ?out) simp_all
    have 4: "?out = None \<longrightarrow> transaction w' = None"
      using r by (cases ?out) simp_all
    have 5: "\<exists>n. ?out = query_fault env n" by blast
    show ?thesis
      apply (rule exI[of _ cause])
      apply (rule exI[of _ ?out])
      apply (rule exI[of _ evs])
      using 1 2 3 4 5 apply simp
      done
  qed
qed

lemma smtp_try_events:
  assumes "service_ok (svc w)" "connect_fault env = None"
      and "smtp_try env cid msg (snd (db_connect env w)) = (b, w2)"
  shows "\<exists>evs. trace w2 = trace w @ Connect # evs \<and> (\<not> isl b \<longrightarrow> list_ex is_dispatch evs)"
proof -
  let ?w1 = "snd (db_connect env w)"
  have w1: "trace ?w1 = trace w @ [Connect]" "svc ?w1 = svc w"
    using assms(2) by (simp_all add: db_connect_def emit_def)
  have p: "progress (trace ?w1) (database ?w1) (svc ?w1) [] False ?w1"
    by (simp add: progress_def)
  have ok: "service_ok (svc ?w1)" using assms(1) w1 by simp
  from tripleD[OF smtp_try_progress[OF ok] p assms(3)]
  show ?thesis
    by (cases b) (auto simp: smtp_exit_def smtp_reached_def progress_def w1)
qed

lemma zoho_try_events:
  assumes "connect_fault env = None"
      and "zoho_try env cid msg (snd (db_connect env w)) = (b, w2)"
  shows "\<exists>evs. trace w2 = trace w @ Connect # evs \<and> (\<not> isl b \<longrightarrow> list_ex is_dispatch evs)"
proof -
  let ?w1 = "snd (db_connect env w)"
  have w1: "trace ?w1 = trace w @ [Connect]"
    using assms(1) by (simp_all add: db_connect_def emit_def)
  have p: "progress (trace ?w1) (database ?w1) (svc ?w1) [] False ?w1"
    by (simp add: progress_def)
  from tripleD[OF zoho_try_progress p assms(2)]
  show ?thesis
    by (cases b) (auto simp: zoho_exit_def zoho_reached_def progress_def w1)
qed

lemma smtp_rolled_back:
  assumes "smtp_sendEmail env cid msg w = (r, w')" "service_ok (svc w)"
      and "connect_fault env = None" "\<not> list_ex is_dispatch (call_events w w')"
  shows "\<exists>cause out evs.
           fst (smtp_try env cid msg (snd (db_connect env w))) = Inl cause
         \<and> call_events w w' = Connect # evs @ [Query ROLLBACK out, Release]
         \<and> (\<exists>n. out = query_fault env n)
         \<and> r = (case out of
                  None \<Rightarrow> Inl (Error (''Failed to send email: '' @ describe cause))
                | Some e \<Rightarrow> Inl e)
         \<and> (out = None \<longrightarrow> transaction w' = None)"
proof (rule rolled_back[OF _ assms(3,4)])
  show "io_bind (db_connect env) (\<lambda>_.
          io_finally (io_catch (smtp_try env cid msg) (rollback_and_wrap env)) client_release) w
        = (r, w')"
    using assms(1) by (simp add: smtp_sendEmail_def)
next
  fix x w2 assume "smtp_try env cid msg (snd (db_connect env w)) = (Inr x, w2)"
  from smtp_try_events[OF assms(2,3) this]
  show "\<exists>evs. trace w2 = trace w @ Connect # evs \<and> list_ex is_dispatch evs" by simp
next
  fix e w2 assume "smtp_try env cid msg (snd (db_connect env w)) = (Inl e, w2)"
  from smtp_try_events[OF assms(2,3) this]
  show "\<exists>evs. trace w2 = trace w @ Connect # evs" by blast
qed

lemma zoho_rolled_back:
  assumes "zoho_sendEmail env cid msg w = (r, w')"
      and "connect_fault env = None" "\<not> list_ex is_dispatch (call_events w w')"
  shows "\<exists>cause out evs.
           fst (zoho_try env cid msg (snd (db_connect env w))) = Inl cause
         \<and> call_events w w' = Connect # evs @ [Query ROLLBACK out, Release]
         \<and> (\<exists>n. out = query_fault env n)
         \<and> r = (case out of
                  None \<Rightarrow> Inl (Error (''Failed to send email: '' @ describe cause))
                | Some e \<Rightarrow> Inl e)
         \<and> (out = None \<longrightarrow> transaction w' = None)"
proof (rule rolled_back[OF _ assms(2,3)])
  show "io_bind (db_connect env) (\<lambda>_.
          io_finally (io_catch (zoho_try env cid msg) (rollback_and_wrap env)) client_release) w
        = (r, w')"
    using assms(1) by (simp add: zoho_sendEmail_def)
next
  fix x w2 assume "zoho_try env cid msg (snd (db_connect env w)) = (Inr x, w2)"
  from zoho_try_events[OF assms(2) this]
  show "\<exists>evs. trace w2 = trace w @ Connect # evs \<and> list_ex is_dispatch evs" by simp
next
  fix e w2 assume "zoho_try env cid msg (snd (db_connect env w)) = (Inl e, w2)"
  from zoho_try_events[OF assms(2) this]
  show "\<exists>evs. trace w2 = trace w @ Connect # evs" by blast
qed

lemma no_client:
  assumes "connect_fault env = Some e"
  shows "smtp_sendEmail env cid msg w = (Inl e, w\<lparr>trace := trace w @ [Connect]\<rparr>)"
    and "zoho_sendEmail env cid msg w = (Inl e, w\<lparr>trace := trace w @ [Connect]\<rparr>)"
  using assms by (simp_all add: sendEmail_apply io_apply(1) db_connect_def emit_def)

text \<open>
  C2. Take any call of \<open>sendEmail\<close>, of either service (\<open>body\<close> is its \<open>try\<close> block),
  whatever the database and the collaborators do, that ends without having handed the mail
  to a transport. The committed tables are then the ones the call started from: no row of
  \<open>outgoing_messages\<close> or \<open>message_attachments\<close> persists. If the pool gave no client, the
  caller gets the error of the pool. Otherwise the \<open>try\<close> block threw some \<open>cause\<close>, and the
  last statement of the call, right before the release of the client, is a \<open>ROLLBACK\<close>.
  When the \<open>ROLLBACK\<close> goes through, the client is released with no transaction open and
  the caller gets \<open>Failed to send email: ...\<close> with the text of the cause; when the
  \<open>ROLLBACK\<close> itself throws, the caller gets that error. A call never reaches the dispatch
  when the repository has no credential of the given id, nor, in the SMTP service, when
  the credential fails the checks.
\<close>

theorem failure_before_dispatch_rolls_back:
  assumes "service_ok (svc w)"
      and "(sendEmail, body) = (smtp_sendEmail, smtp_try)
           \<or> (sendEmail, body) = (zoho_sendEmail, zoho_try)"
      and "sendEmail env cid msg w = (r, w')"
  shows "(\<not> list_ex is_dispatch (call_events w w') \<longrightarrow>
            database w' = database w
          \<and> (\<forall>e. connect_fault env = Some e \<longrightarrow> r = Inl e \<and> call_events w w' = [Connect])
          \<and> (connect_fault env = None \<longrightarrow>
                (\<exists>cause out evs.
                    fst (body env cid msg (snd (db_connect env w))) = Inl cause
                  \<and> call_events w w' = Connect # evs @ [Query ROLLBACK out, Release]
                  \<and> (\<exists>n. out = query_fault env n)
                  \<and> r = (case out of
                           None \<Rightarrow> Inl (Error (''Failed to send email: '' @ describe cause))
                         | Some e \<Rightarrow> Inl e)
                  \<and> (out = None \<longrightarrow> transaction w' = None))))
       \<and> ((\<forall>c. findById env cid \<noteq> Inr (Some c))
            \<longrightarrow> \<not> list_ex is_dispatch (call_events w w'))
       \<and> (sendEmail = smtp_sendEmail
            \<and> (\<forall>c. findById env cid = Inr (Some c) \<longrightarrow> \<not> usable_smtp c)
            \<longrightarrow> \<not> list_ex is_dispatch (call_events w w'))"
proof -
  from assms(2) have v: "sendEmail = smtp_sendEmail \<and> body = smtp_try
                         \<or> sendEmail = zoho_sendEmail \<and> body = zoho_try" by simp
  have a: "database w' = database w"
    if q: "\<not> list_ex is_dispatch (call_events w w')"
    using v
  proof (rule disjE)
    assume "sendEmail = smtp_sendEmail \<and> body = smtp_try"
    with assms(3) have "smtp_sendEmail env cid msg w = (r, w')" by simp
    from smtp_quiet_run[OF this assms(1) q] show ?thesis by simp
  next
    assume "sendEmail = zoho_sendEmail \<and> body = zoho_try"
    with assms(3) have "zoho_sendEmail env cid msg w = (r, w')" by simp
    from zoho_quiet_run[OF this q] show ?thesis by simp
  qed
  have n: "r = Inl e \<and> call_events w w' = [Connect]" if "connect_fault env = Some e" for e
    using v assms(3) no_client[OF that, of cid msg w] by (auto simp: call_events_def)
  have b: "\<exists>cause out evs.
              fst (body env cid msg (snd (db_connect env w))) = Inl cause
            \<and> call_events w w' = Connect # evs @ [Query ROLLBACK out, Release]
            \<and> (\<exists>n. out = query_fault env n)
            \<and> r = (case out of
                     None \<Rightarrow> Inl (Error (''Failed to send email: '' @ describe cause))
                   | Some e \<Rightarrow> Inl e)
            \<and> (out = None \<longrightarrow> transaction w' = None)"
    if q: "\<not> list_ex is_dispatch (call_events w w')" and c: "connect_fault env = None"
    using v
  proof (rule disjE)
    assume s: "sendEmail = smtp_sendEmail \<and> body = smtp_try"
    with assms(3) have "smtp_sendEmail env cid msg w = (r, w')" by simp
    from smtp_rolled_back[OF this assms(1) c q] s show ?thesis by simp
  next
    assume s: "sendEmail = zoho_sendEmail \<and> body = zoho_try"
    with assms(3) have "zoho_sendEmail env cid msg w = (r, w')" by simp
    from zoho_rolled_back[OF this c q] s show ?thesis by simp
  qed
  have d: "\<not> list_ex is_dispatch (call_events w w')"
    if f: "\<forall>c. findById env cid \<noteq> Inr (Some c)"
    using v
  proof (rule disjE)
    assume "sendEmail = smtp_sendEmail \<and> body = smtp_try"
    with assms(3) have "smtp_sendEmail env cid msg w = (r, w')" by simp
    from smtp_loud_run[OF this assms(1)] f show ?thesis by blast
  next
    assume "sendEmail = zoho_sendEmail \<and> body = zoho_try"
    with assms(3) have "zoho_sendEmail env cid msg w = (r, w')" by simp
    from zoho_loud_run[OF this] f show ?thesis by blast
  qed
  have u: "\<not> list_ex is_dispatch (call_events w w')"
    if s: "sendEmail = smtp_sendEmail"
      and f: "\<forall>c. findById env cid = Inr (Some c) \<longrightarrow> \<not> usable_smtp c"
  proof -
    from assms(3) s have "smtp_sendEmail env cid msg w = (r, w')" by simp
    from smtp_loud_run[OF this assms(1)] f show ?thesis by blast
  qed
  from a n b d u show ?thesis by blast
qed

lemma ex_no_credential:
  "fst (smtp_try ex_env ''c2'' msg (snd (db_connect ex_env ex_world)))
     = Inl (Error ''Credential not found'')"
  "fst (zoho_try ex_env ''c2'' msg (snd (db_connect ex_env ex_world)))
     = Inl (Error ''Credential not found'')"
  by (simp_all add: connected[OF ex_facts(1)] smtp_try_def zoho_try_def io_apply
        client_query_ok client_insert_ok insert_attachments_ok[OF ex_facts(1)]
        run_statement_def repo_findById_def ex_facts(6) validate_credential_def
        found_credential_def emit_def ex_facts(1)[unfolded db_ok_def])

theorem failure_before_dispatch_rolls_back_witness:
  "fst (smtp_sendEmail ex_env ''c2'' ex_message ex_world)
     = Inl (Error ''Failed to send email: Credential not found'')
   \<and> database (snd (smtp_sendEmail ex_env ''c2'' ex_message ex_world)) = database ex_world
   \<and> transaction (snd (smtp_sendEmail ex_env ''c2'' ex_message ex_world)) = None
   \<and> Query ROLLBACK None
       \<in> set (call_events ex_world (snd (smtp_sendEmail ex_env ''c2'' ex_message ex_world)))
   \<and> fst (zoho_sendEmail ex_env ''c2'' ex_message ex_world)
     = Inl (Error ''Failed to send email: Credential not found'')
   \<and> database (snd (zoho_sendEmail ex_env ''c2'' ex_message ex_world)) = database ex_world
   \<and> transaction (snd (zoho_sendEmail ex_env ''c2'' ex_message ex_world)) = None
   \<and> Query ROLLBACK None
       \<in> set (call_events ex_world (snd (zoho_sendEmail ex_env ''c2'' ex_message ex_world)))"
proof -
  have f: "\<forall>c. findById ex_env ''c2'' \<noteq> Inr (Some c)"
    by (simp add: ex_facts(6))
  have c: "connect_fault ex_env = None" "\<And>n. query_fault ex_env n = None"
    using ex_facts(1) by (simp_all add: db_ok_def)
  have s: "smtp_sendEmail ex_env ''c2'' ex_message ex_world
             = (fst (smtp_sendEmail ex_env ''c2'' ex_message ex_world),
                snd (smtp_sendEmail ex_env ''c2'' ex_message ex_world))"
    and z: "zoho_sendEmail ex_env ''c2'' ex_message ex_world
             = (fst (zoho_sendEmail ex_env ''c2'' ex_message ex_world),
                snd (zoho_sendEmail ex_env ''c2'' ex_message ex_world))"
    by simp_all
  have "(smtp_sendEmail, smtp_try) = (smtp_sendEmail, smtp_try)
        \<or> (smtp_sendEmail, smtp_try) = (zoho_sendEmail, zoho_try)" by simp
  from failure_before_dispatch_rolls_back[OF ex_facts(7) this s] f c
  have 1: "fst (smtp_sendEmail ex_env ''c2'' ex_message ex_world)
             = Inl (Error ''Failed to send email: Credential not found'')
           \<and> database (snd (smtp_sendEmail ex_env ''c2'' ex_message ex_world)) = database ex_world
           \<and> transaction (snd (smtp_sendEmail ex_env ''c2'' ex_message ex_world)) = None
           \<and> Query ROLLBACK None
               \<in> set (call_events ex_world (snd (smtp_sendEmail ex_env ''c2'' ex_message ex_world)))"
    by (auto simp: ex_no_credential describe_def)
  have "(zoho_sendEmail, zoho_try) = (smtp_sendEmail, smtp_try)
        \<or> (zoho_sendEmail, zoho_try) = (zoho_sendEmail, zoho_try)" by simp
  from failure_before_dispatch_rolls_back[OF ex_facts(7) this z] f c
  have 2: "fst (zoho_sendEmail ex_env ''c2'' ex_message ex_world)
             = Inl (Error ''Failed to send email: Credential not found'')
           \<and> database (snd (zoho_sendEmail ex_env ''c2'' ex_message ex_world)) = database ex_world
           \<and> transaction (snd (zoho_sendEmail ex_env ''c2'' ex_message ex_world)) = None
           \<and> Query ROLLBACK None
               \<in> set (call_events ex_world (snd (zoho_sendEmail ex_env ''c2'' ex_message ex_world)))"
    by (auto simp: ex_no_credential describe_def)
  from 1 2 show ?thesis by simp
qed

section \<open>The cached transporter\<close>

lemma smtp_run_cache:
  assumes "smtp_sendEmail env cid msg w = (r, w')" "service_ok (svc w)"
  shows "(svc w' = svc w \<and> filter is_create (call_events w w') = [])
         \<or> (\<exists>c. findById env cid = Inr (Some c) \<and> svc w' = cached (svc w) cid c
                \<and> filter is_create (call_events w w') = constructions (svc w) cid c
                \<and> list_ex is_dispatch (call_events w w'))"
proof (cases "list_ex is_dispatch (call_events w w')")
  case True
  from smtp_loud_run[OF assms True] True show ?thesis by blast
next
  case False
  from smtp_quiet_run[OF assms False] show ?thesis by simp
qed

lemma smtp_run_transporter:
  assumes "smtp_sendEmail env cid msg w = (r, w')" "service_ok (svc w)"
      and "SendMail t m \<in> set (call_events w w')"
  shows "transporter (svc w') = Some t"
proof -
  have "transporter (svc w') = Some t" if "progress (trace w) d0 s cr disp w'" for d0 s cr disp
    using progress_events[OF that] assms(3) by blast
  with smtp_summary[OF assms(1,2)] show ?thesis
    unfolding smtp_reached_def by blast
qed

lemma smtp_run_creates:
  assumes "smtp_sendEmail env cid msg w = (r, w')" "service_ok (svc w)"
  shows "service_ok (svc w')"
    and "length (filter is_create (call_events w w')) \<le> 1"
    and "currentCredentialId (svc w) = Some cid \<Longrightarrow>
         svc w' = svc w \<and> filter is_create (call_events w w') = []"
    and "filter is_create (call_events w w') \<noteq> [] \<Longrightarrow> currentCredentialId (svc w') = Some cid"
  using smtp_run_cache[OF assms] assms(2)
  by (auto simp: cached_def constructions_def service_ok_def split: if_splits)

text \<open>
  C6. The service keeps one transporter and the credential id it was built for. Take any
  call of the SMTP \<open>sendEmail\<close>, whatever the database and the collaborators do.
  If the recorded id equals the requested id, the two fields are left as they are and no
  transport is constructed. If it differs and the call reaches the dispatch, exactly one
  transport is constructed, from the credential of the requested id, and it replaces the
  cache together with the id. A mail that is handed over is handed to the transporter the
  service holds after the call. No call constructs more than one transport, and two
  consecutive calls with the same credential id construct at most one between them.
\<close>

theorem transporter_cache:
  assumes "smtp_sendEmail env cid msg w = (r, w')" "service_ok (svc w)"
  shows "(currentCredentialId (svc w) = Some cid \<longrightarrow>
            svc w' = svc w \<and> filter is_create (call_events w w') = [])
       \<and> (currentCredentialId (svc w) \<noteq> Some cid \<and> list_ex is_dispatch (call_events w w') \<longrightarrow>
            (\<exists>c. findById env cid = Inr (Some c)
                \<and> svc w' = \<lparr>transporter = Some (createTransport c),
                             currentCredentialId = Some cid\<rparr>
                \<and> filter is_create (call_events w w') = [CreateTransport (createTransport c)]))
       \<and> (\<forall>t m. SendMail t m \<in> set (call_events w w') \<longrightarrow> transporter (svc w') = Some t)
       \<and> length (filter is_create (call_events w w')) \<le> 1
       \<and> service_ok (svc w')
       \<and> length (filter is_create
                   (call_events w w'
                    @ call_events w' (snd (smtp_sendEmail env2 cid msg2 w')))) \<le> 1"
proof -
  have u: "\<forall>t m. SendMail t m \<in> set (call_events w w') \<longrightarrow> transporter (svc w') = Some t"
    using smtp_run_transporter[OF assms] by blast
  let ?w2 = "snd (smtp_sendEmail env2 cid msg2 w')"
  have a: "svc w' = svc w \<and> filter is_create (call_events w w') = []"
    if "currentCredentialId (svc w) = Some cid"
    by (rule smtp_run_creates(3)[OF assms that])
  have b: "\<exists>c. findById env cid = Inr (Some c)
            \<and> svc w' = \<lparr>transporter = Some (createTransport c), currentCredentialId = Some cid\<rparr>
            \<and> filter is_create (call_events w w') = [CreateTransport (createTransport c)]"
    if d: "currentCredentialId (svc w) \<noteq> Some cid"
      and l: "list_ex is_dispatch (call_events w w')"
    using smtp_loud_run[OF assms l] d by (auto simp: cached_def constructions_def)
  have c: "length (filter is_create (call_events w w')) \<le> 1"
    by (rule smtp_run_creates(2)[OF assms])
  have ok': "service_ok (svc w')"
    by (rule smtp_run_creates(1)[OF assms])
  have run2: "smtp_sendEmail env2 cid msg2 w' = (fst (smtp_sendEmail env2 cid msg2 w'), ?w2)"
    by simp
  have e: "length (filter is_create (call_events w w' @ call_events w' ?w2)) \<le> 1"
  proof (cases "filter is_create (call_events w w') = []")
    case True
    with smtp_run_creates(2)[OF run2 ok'] show ?thesis by simp
  next
    case False
    from smtp_run_creates(4)[OF assms False]
    have "currentCredentialId (svc w') = Some cid" .
    from smtp_run_creates(3)[OF run2 ok' this] c
    show ?thesis by simp
  qed
  from a b u c ok' e show ?thesis by blast
qed

theorem transporter_cache_witness:
  "svc (snd (smtp_sendEmail ex_env ''c1'' ex_message ex_world))
     = \<lparr>transporter = Some (createTransport ex_credential), currentCredentialId = Some ''c1''\<rparr>
   \<and> filter is_create (call_events ex_world (snd (smtp_sendEmail ex_env ''c1'' ex_message ex_world)))
     = [CreateTransport (createTransport ex_credential)]"
proof -
  let ?w' = "snd (smtp_sendEmail ex_env ''c1'' ex_message ex_world)"
  have sm: "sendMail ex_env (createTransport ex_credential)
          \<lparr>mail_from = username ex_credential, mail_message = ex_message\<rparr> = None"
    by (simp add: ex_env_def)
  note s = smtp_success[OF ex_facts(1) ex_facts(4) ex_facts(3) ex_transporter sm]
  have run: "smtp_sendEmail ex_env ''c1'' ex_message ex_world
               = (fst (smtp_sendEmail ex_env ''c1'' ex_message ex_world), ?w')"
    by simp
  have d: "list_ex is_dispatch (call_events ex_world ?w')"
    using s(5) by (simp add: call_events_def)
  have n: "currentCredentialId (svc ex_world) \<noteq> Some ''c1''"
    by (simp add: ex_world_def)
  from transporter_cache[OF run ex_facts(7)] n d ex_facts(4)
  show ?thesis by auto
qed

section \<open>The shape of the trace\<close>

lemma inserted_first_True: "inserted_first True evs"
  by (induction evs) auto

lemma inserted_first_quiet: "\<not> list_ex is_network evs \<Longrightarrow> inserted_first ins evs"
  by (induction evs arbitrary: ins) auto

lemma inserted_first_append:
  "inserted_first ins evs \<Longrightarrow>
   (list_ex is_network evs' \<longrightarrow> ins \<or> list_ex is_pending_insert evs) \<Longrightarrow>
   inserted_first ins (evs @ evs')"
proof (induction evs arbitrary: ins)
  case Nil
  then show ?case
    by (cases ins) (auto simp: inserted_first_True inserted_first_quiet)
next
  case (Cons ev evs)
  then show ?case by auto
qed

lemma sorted_constant: "\<forall>e \<in> set evs. rank e = j \<Longrightarrow> sorted (map rank evs)"
  by (induction evs) auto

lemma shape_append:
  assumes "shape rank tr0 k ins w" "trace w' = trace w @ evs'"
      and "\<forall>e \<in> set evs'. rank e = j" "k \<le> j" "list_ex is_network evs' \<longrightarrow> ins"
  shows "shape rank tr0 j ins w'"
proof -
  from assms(1) obtain evs where
    e: "trace w = tr0 @ evs" "sorted (map rank evs)" "\<forall>e \<in> set evs. rank e \<le> k"
       "inserted_first False evs" "ins \<longrightarrow> list_ex is_pending_insert evs"
    unfolding shape_def by blast
  have "trace w' = tr0 @ (evs @ evs')" using e(1) assms(2) by simp
  moreover have "sorted (map rank (evs @ evs'))"
    using e(2,3) assms(3,4) sorted_constant[OF assms(3)]
    by (fastforce simp: sorted_append)
  moreover have "\<forall>e \<in> set (evs @ evs'). rank e \<le> j"
    using e(3) assms(3,4) by fastforce
  moreover have "inserted_first False (evs @ evs')"
    using e(4,5) assms(5) by (intro inserted_first_append) auto
  moreover have "ins \<longrightarrow> list_ex is_pending_insert (evs @ evs')"
    using e(5) by simp
  ultimately show ?thesis unfolding shape_def by blast
qed

lemma shape_inserted:
  assumes "shape rank tr0 k ins w" "trace w' = trace w @ [ev]"
      and "rank ev = j" "k \<le> j" "is_pending_insert ev"
  shows "shape rank tr0 j True w'"
proof -
  from assms(5) have n: "\<not> is_network ev" by (cases ev) auto
  from assms(1) obtain evs where
    e: "trace w = tr0 @ evs" "sorted (map rank evs)" "\<forall>e \<in> set evs. rank e \<le> k"
       "inserted_first False evs"
    unfolding shape_def by blast
  have "trace w' = tr0 @ (evs @ [ev])" using e(1) assms(2) by simp
  moreover have "sorted (map rank (evs @ [ev]))"
    using e(2,3) assms(3,4) by (fastforce simp: sorted_append)
  moreover have "\<forall>e \<in> set (evs @ [ev]). rank e \<le> j"
    using e(3) assms(3,4) by fastforce
  moreover have "inserted_first False (evs @ [ev])"
    using e(4) n by (intro inserted_first_append) auto
  moreover have "list_ex is_pending_insert (evs @ [ev])"
    using assms(5) by simp
  ultimately show ?thesis unfolding shape_def by blast
qed

lemma shape_weaken:
  "shape rank tr0 k ins w \<Longrightarrow> k \<le> k' \<Longrightarrow> ins' \<longrightarrow> ins \<Longrightarrow> shape rank tr0 k' ins' w"
  unfolding shape_def by fastforce

lemma shape_trace:
  assumes "shape rank tr0 k ins w"
      and "\<forall>e \<in> set evs'. rank e = j" "k \<le> j" "list_ex is_network evs' \<longrightarrow> ins"
  shows "shape rank tr0 j ins (w\<lparr>trace := trace w @ evs'\<rparr>)"
  by (rule shape_append[OF assms(1) _ assms(2-4)]) simp

lemma shape_query:
  assumes "\<And>out. rank (Query q out) = j" "k \<le> j"
  shows "triple (shape rank tr0 k ins) (client_query env q)
           (\<lambda>_. shape rank tr0 j ins) (\<lambda>_. shape rank tr0 j ins)"
proof (rule tripleI)
  fix w e w' assume p: "shape rank tr0 k ins w" and r: "client_query env q w = (Inl e, w')"
  from client_query_Inl[OF r] have "trace w' = trace w @ [Query q (Some e)]" by simp
  from shape_append[OF p this, of j] assms show "shape rank tr0 j ins w'" by simp
next
  fix w x w' assume p: "shape rank tr0 k ins w" and r: "client_query env q w = (Inr x, w')"
  from client_query_Inr[OF r] have "trace w' = trace w @ [Query q None]" by simp
  from shape_append[OF p this, of j] assms show "shape rank tr0 j ins w'" by simp
qed

lemma shape_insert:
  assumes "\<And>out. rank (Query (INSERT_message row) out) = j" "k \<le> j" "status row = pending"
  shows "triple (shape rank tr0 k ins) (client_insert env row)
           (\<lambda>_. shape rank tr0 j True) (\<lambda>_. shape rank tr0 j ins)"
proof (rule tripleI)
  fix w e w' assume p: "shape rank tr0 k ins w" and r: "client_insert env row w = (Inl e, w')"
  from tripleD[OF shape_query[where rank = rank and q = "INSERT_message row" and j = j, OF assms(1,2)]
              p client_insert_Inl[OF r]]
  show "shape rank tr0 j ins w'" by simp
next
  fix w x w' assume p: "shape rank tr0 k ins w" and r: "client_insert env row w = (Inr x, w')"
  from client_query_Inr[OF client_insert_Inr[OF r]]
  have "trace w' = trace w @ [Query (INSERT_message row) None]" by simp
  from shape_inserted[OF p this assms(1,2)] assms(3) show "shape rank tr0 j True w'" by simp
qed

lemma shape_attachments:
  assumes "\<And>a out. rank (Query (INSERT_attachment a) out) = j" "k \<le> j"
  shows "triple (shape rank tr0 k ins) (insert_attachments env as)
           (\<lambda>_. shape rank tr0 j ins) (\<lambda>_. shape rank tr0 j ins)"
  using assms(2)
proof (induction as arbitrary: k)
  case Nil
  show ?case
    by (simp add: triple_return shape_weaken[OF _ Nil])
next
  case (Cons a as)
  show ?case
    by (simp only: insert_attachments.simps)
       (rule triple_bind[OF shape_query[where rank = rank and q = "INSERT_attachment a" and j = j,
                              OF assms(1) Cons.prems] Cons.IH[OF order_refl]])
qed

lemma shape_events:
  assumes "\<And>w. m w = (v, w\<lparr>trace := trace w @ evs\<rparr>)"
      and "\<forall>e \<in> set evs. rank e = j" "k \<le> j" "list_ex is_network evs \<longrightarrow> ins"
  shows "triple (shape rank tr0 k ins) m (\<lambda>_. shape rank tr0 j ins) (\<lambda>_. shape rank tr0 j ins)"
  by (rule triple_weaken[OF triple_events[OF assms(1),
        where P = "shape rank tr0 k ins" and Q = "shape rank tr0 j ins"]])
     (simp_all add: shape_trace[OF _ assms(2-4)])

lemma shape_update_transporter:
  assumes "\<And>t. rank (CreateTransport t) = j" "k \<le> j"
  shows "triple (shape rank tr0 k ins) (update_transporter cid c)
           (\<lambda>_. shape rank tr0 j ins) (\<lambda>_. shape rank tr0 j ins)"
proof -
  have "shape rank tr0 j ins w'"
    if p: "shape rank tr0 k ins w" and r: "update_transporter cid c w = (x, w')" for w x w'
  proof -
    from r have t: "trace w' = trace w @ constructions (svc w) cid c"
      by (auto simp: update_transporter_run)
    show ?thesis
      by (rule shape_append[OF p t, of j]) (auto simp: constructions_def assms)
  qed
  then show ?thesis by (intro tripleI)
qed

lemma shape_sendMail:
  assumes "\<And>t m. rank (SendMail t m) = j" "k \<le> j"
  shows "triple (shape rank tr0 k True) (transporter_sendMail env c msg)
           (\<lambda>_. shape rank tr0 j True) (\<lambda>_. shape rank tr0 j True)"
proof -
  have "shape rank tr0 j True w'"
    if p: "shape rank tr0 k True w" and r: "transporter_sendMail env c msg w = (x, w')"
    for w x w'
  proof (cases "transporter (svc w)")
    case None
    with r have "w' = w" by (simp add: transporter_sendMail_def)
    with p assms(2) show ?thesis by (simp add: shape_weaken)
  next
    case (Some t)
    let ?m = "\<lparr>mail_from = username c, mail_message = msg\<rparr>"
    from r Some have "trace w' = trace w @ [SendMail t ?m]"
      by (auto simp: transporter_sendMail_def emit_def Let_def split: option.splits)
    from shape_append[OF p this, of j] assms show ?thesis by simp
  qed
  then show ?thesis by (intro tripleI)
qed

lemma shape_connect:
  assumes "rank Connect = j"
  shows "triple (\<lambda>w. w = w0) (db_connect env)
           (\<lambda>_. shape rank (trace w0) j False) (\<lambda>_. shape rank (trace w0) j False)"
  by (rule tripleI)
     (auto simp: db_connect_def emit_def shape_def assms split: option.splits)

lemma shape_rollback:
  assumes "\<And>out. rank (Query ROLLBACK out) = j" "k \<le> j"
  shows "triple (shape rank tr0 k ins) (rollback_and_wrap env e)
           (\<lambda>_. shape rank tr0 j ins) (\<lambda>_. shape rank tr0 j ins)"
  unfolding rollback_and_wrap_def
  by (rule triple_bind[OF shape_query[where rank = rank and q = ROLLBACK and j = j, OF assms]])
     (simp add: triple_throw)

lemma shape_release:
  assumes "shape rank tr0 k ins w" "rank Release = j" "k \<le> j"
  shows "shape rank tr0 j ins (client_release w)"
  by (rule shape_append[OF assms(1), where evs' = "[Release]"])
     (simp_all add: client_release_def emit_def assms)

lemma shape_triple_weaken:
  assumes "triple (shape rank tr0 k ins) m (\<lambda>_. shape rank tr0 j insn0) (\<lambda>_. shape rank tr0 j inse0)"
      and "j \<le> jn" "j \<le> je" "insn \<longrightarrow> insn0" "inse \<longrightarrow> inse0"
  shows "triple (shape rank tr0 k ins) m (\<lambda>_. shape rank tr0 jn insn) (\<lambda>_. shape rank tr0 je inse)"
proof (rule triple_weaken[OF assms(1)])
  fix x w assume "shape rank tr0 j insn0 w"
  then show "shape rank tr0 jn insn w" by (rule shape_weaken) (use assms in auto)
next
  fix e w assume "shape rank tr0 j inse0 w"
  then show "shape rank tr0 je inse w" by (rule shape_weaken) (use assms in auto)
qed

lemma shape_pure:
  assumes "triple (shape rank tr0 k ins) m (\<lambda>x w. shape rank tr0 k ins w \<and> A x) (\<lambda>_. shape rank tr0 k ins)"
      and "k \<le> je" "inse \<longrightarrow> ins"
  shows "triple (shape rank tr0 k ins) m (\<lambda>_. shape rank tr0 k ins) (\<lambda>_. shape rank tr0 je inse)"
proof (rule triple_weaken[OF assms(1)])
  fix e w assume "shape rank tr0 k ins w"
  then show "shape rank tr0 je inse w" by (rule shape_weaken) (use assms in auto)
qed simp_all

section \<open>The order of the steps in the SMTP service\<close>

lemma smtp_dispatch_shape:
  "triple (shape step_of tr0 5 True) (smtp_dispatch env i c msg)
     (\<lambda>_. shape step_of tr0 7 True) (\<lambda>_. shape step_of tr0 7 True)"
  unfolding smtp_dispatch_def
  apply (rule triple_catch[where R = "\<lambda>_. shape step_of tr0 7 True"])
   apply (rule triple_bind[where R = "\<lambda>_. shape step_of tr0 6 True"])
    apply (rule shape_triple_weaken[OF shape_sendMail[where rank = step_of and j = 6]])
         apply (simp_all)[6]
   apply (rule triple_bind[where R = "\<lambda>_. shape step_of tr0 7 True"])
    apply (rule shape_triple_weaken[OF shape_query[where rank = step_of and j = 7]])
         apply (simp_all)[6]
   apply (rule shape_triple_weaken[OF shape_query[where rank = step_of and j = 7]])
        apply (simp_all)[6]
  apply (rule triple_bind[where R = "\<lambda>_. shape step_of tr0 7 True"])
   apply (rule shape_triple_weaken[OF shape_query[where rank = step_of and j = 7]])
        apply (simp_all)[6]
  apply (rule triple_bind[where R = "\<lambda>_. shape step_of tr0 7 True"])
   apply (rule shape_triple_weaken[OF shape_query[where rank = step_of and j = 7]])
        apply (simp_all)[6]
  apply (rule triple_throw)
  apply assumption
  done

lemma smtp_try_shape:
  "triple (shape step_of tr0 1 False) (smtp_try env cid msg)
     (\<lambda>_. shape step_of tr0 7 False) (\<lambda>_. shape step_of tr0 7 False)"
  unfolding smtp_try_def
  apply (rule triple_bind[where R = "\<lambda>_. shape step_of tr0 1 False"])
   apply (rule shape_triple_weaken[OF shape_query[where rank = step_of and j = 1]])
        apply (simp_all)[6]
  apply (rule triple_bind[where R = "\<lambda>_. shape step_of tr0 2 True"])
   apply (rule shape_triple_weaken[OF shape_insert[where rank = step_of and j = 2]])
         apply (simp_all add: smtp_pending_row_def)[7]
  apply (rule triple_bind[where R = "\<lambda>_. shape step_of tr0 3 True"])
   apply (rule shape_triple_weaken[OF shape_attachments[where rank = step_of and j = 3]])
        apply (simp_all)[6]
  apply (rule triple_bind[where R = "\<lambda>_. shape step_of tr0 4 True"])
   apply (rule shape_triple_weaken[OF shape_events[OF repo_findById_run,
            where rank = step_of and j = 4]])
         apply (simp_all)[7]
  apply (rule triple_bind[where R = "\<lambda>_. shape step_of tr0 4 True"])
   apply (rule shape_pure[OF validate_credential_triple])
    apply (simp_all)[2]
  apply (rule triple_bind[where R = "\<lambda>_. shape step_of tr0 5 True"])
   apply (rule shape_triple_weaken[OF shape_update_transporter[where rank = step_of and j = 5]])
        apply (simp_all)[6]
  apply (rule shape_triple_weaken[OF smtp_dispatch_shape])
     apply simp_all
  done

lemma smtp_sendEmail_shape:
  "triple (\<lambda>w. w = w0) (smtp_sendEmail env cid msg)
     (\<lambda>_. shape step_of (trace w0) 9 False) (\<lambda>_. shape step_of (trace w0) 9 False)"
  unfolding smtp_sendEmail_def
  apply (rule triple_bind[where R = "\<lambda>_. shape step_of (trace w0) 1 False"])
   apply (rule triple_weaken[OF shape_connect[where rank = step_of and j = 1]])
      apply (simp_all)[3]
    apply (erule shape_weaken; simp)
  apply (rule triple_finally[where Q' = "\<lambda>_. shape step_of (trace w0) 8 False"
           and E' = "\<lambda>_. shape step_of (trace w0) 8 False"])
    apply (rule triple_catch[where R = "\<lambda>_. shape step_of (trace w0) 7 False"])
     apply (rule shape_triple_weaken[OF smtp_try_shape])
        apply (simp_all)[4]
    apply (rule shape_triple_weaken[OF shape_rollback[where rank = step_of and j = 8]])
         apply (simp_all)[6]
   apply (erule shape_release; simp)+
  done

section \<open>The order of the steps in the provider API service\<close>

lemma uploads_position:
  "\<forall>e \<in> set (case atts of None \<Rightarrow> [] | Some xs \<Rightarrow> map (\<lambda>att. AttachmentPost a (filename att)) xs).
     zoho_position e = 5"
  by (auto split: option.splits)

lemma zoho_try_shape:
  "triple (shape zoho_position tr0 1 False) (zoho_try env cid msg)
     (\<lambda>_. shape zoho_position tr0 7 False) (\<lambda>_. shape zoho_position tr0 7 False)"
  unfolding zoho_try_def
  apply (rule triple_bind[where R = "\<lambda>_. shape zoho_position tr0 1 False"])
   apply (rule shape_triple_weaken[OF shape_query[where rank = zoho_position and j = 1]])
        apply (simp_all)[6]
  apply (rule triple_bind[where R = "\<lambda>_. shape zoho_position tr0 2 True"])
   apply (rule shape_triple_weaken[OF shape_insert[where rank = zoho_position and j = 2]])
         apply (simp_all add: zoho_pending_row_def)[7]
  apply (rule triple_bind[where R = "\<lambda>_. shape zoho_position tr0 3 True"])
   apply (rule shape_triple_weaken[OF shape_events[OF repo_findById_run,
            where rank = zoho_position and j = 3]])
         apply (simp_all)[7]
  apply (rule triple_bind[where R = "\<lambda>_. shape zoho_position tr0 3 True"])
   apply (rule shape_pure[OF found_credential_triple])
    apply (simp_all)[2]
  apply (rule triple_bind[where R = "\<lambda>_. shape zoho_position tr0 4 True"])
   apply (rule shape_triple_weaken[OF shape_events[OF getZohoAccessToken_run,
            where rank = zoho_position and j = 4]])
         apply (simp_all)[7]
  apply (rule triple_bind[where R = "\<lambda>_. shape zoho_position tr0 4 True"])
   apply (rule shape_triple_weaken[OF shape_events[OF getZohoAccountId_run,
            where rank = zoho_position and j = 4]])
         apply (simp_all)[7]
  apply (rule triple_bind[where R = "\<lambda>_. shape zoho_position tr0 5 True"])
   apply (rule shape_triple_weaken[OF shape_events[OF stage_attachments_run[OF refl],
            where rank = zoho_position and j = 5]])
         apply (simp_all add: uploads_position)[7]
  apply (rule triple_bind[where R = "\<lambda>_. shape zoho_position tr0 6 True"])
   apply (rule shape_triple_weaken[OF shape_events[OF post_message_run,
            where rank = zoho_position and j = 6]])
         apply (simp_all)[7]
  apply (rule triple_bind[where R = "\<lambda>_. shape zoho_position tr0 7 True"])
   apply (rule shape_triple_weaken[OF shape_query[where rank = zoho_position and j = 7]])
        apply (simp_all)[6]
  apply (rule shape_triple_weaken[OF shape_query[where rank = zoho_position and j = 7]])
       apply simp_all
  done

lemma zoho_sendEmail_shape:
  "triple (\<lambda>w. w = w0) (zoho_sendEmail env cid msg)
     (\<lambda>_. shape zoho_position (trace w0) 9 False) (\<lambda>_. shape zoho_position (trace w0) 9 False)"
  unfolding zoho_sendEmail_def
  apply (rule triple_bind[where R = "\<lambda>_. shape zoho_position (trace w0) 1 False"])
   apply (rule triple_weaken[OF shape_connect[where rank = zoho_position and j = 1]])
      apply (simp_all)[3]
    apply (erule shape_weaken; simp)
  apply (rule triple_finally[where Q' = "\<lambda>_. shape zoho_position (trace w0) 8 False"
           and E' = "\<lambda>_. shape zoho_position (trace w0) 8 False"])
    apply (rule triple_catch[where R = "\<lambda>_. shape zoho_position (trace w0) 7 False"])
     apply (rule shape_triple_weaken[OF zoho_try_shape])
        apply (simp_all)[4]
    apply (rule shape_triple_weaken[OF shape_rollback[where rank = zoho_position and j = 8]])
         apply (simp_all)[6]
   apply (erule shape_release; simp)+
  done

lemma shape_events_of:
  assumes "shape rank (trace w) k ins w'"
  shows "sorted (map rank (call_events w w')) \<and> inserted_first False (call_events w w')"
proof -
  from assms obtain evs where
    "trace w' = trace w @ evs" "sorted (map rank evs)" "inserted_first False evs"
    unfolding shape_def by blast
  with call_events_append[of w' w evs] show ?thesis by simp
qed

lemma smtp_run_shape:
  "sorted (map step_of (call_events w (snd (smtp_sendEmail env cid msg w))))
   \<and> inserted_first False (call_events w (snd (smtp_sendEmail env cid msg w)))"
proof -
  obtain r w' where run: "smtp_sendEmail env cid msg w = (r, w')" by (cases "smtp_sendEmail env cid msg w")
  from tripleD[OF smtp_sendEmail_shape refl run]
  have "shape step_of (trace w) 9 False w'" by (cases r) simp_all
  from shape_events_of[OF this] run show ?thesis by simp
qed

lemma zoho_run_shape:
  "sorted (map zoho_position (call_events w (snd (zoho_sendEmail env cid msg w))))
   \<and> inserted_first False (call_events w (snd (zoho_sendEmail env cid msg w)))"
proof -
  obtain r w' where run: "zoho_sendEmail env cid msg w = (r, w')" by (cases "zoho_sendEmail env cid msg w")
  from tripleD[OF zoho_sendEmail_shape refl run]
  have "shape zoho_position (trace w) 9 False w'" by (cases r) simp_all
  from shape_events_of[OF this] run show ?thesis by simp
qed

section \<open>The order of the steps of a call\<close>

text \<open>
  C5, as the two services do it. Take any call of \<open>sendEmail\<close>, whatever the database and
  the collaborators do. In both services every network call of the run comes after the
  successful insert of the row with status \<open>pending\<close>. The events of the SMTP service are
  in the order of the steps of section 4.1. The events of the provider API service are in
  its own order, in which the credential, the token and the account come before the
  staging of the attachments.
\<close>

theorem steps_in_order:
  "sorted (map step_of (call_events w (snd (smtp_sendEmail env cid msg w))))
   \<and> inserted_first False (call_events w (snd (smtp_sendEmail env cid msg w)))
   \<and> sorted (map zoho_position (call_events w (snd (zoho_sendEmail env cid msg w))))
   \<and> inserted_first False (call_events w (snd (zoho_sendEmail env cid msg w)))"
  using smtp_run_shape[of w env cid msg] zoho_run_shape[of w env cid msg] by simp

lemma ex_attached_smtp:
  "call_events ex_world (snd (smtp_sendEmail ex_env ''c1'' ex_attached ex_world)) =
     [Connect, Query BEGIN None,
      Query (INSERT_message (smtp_pending_row ''c1'' ex_attached)) None,
      Query (INSERT_attachment
               \<lparr>message_id = 1, ma_filename = ''a.txt'', content_type = None,
                size_bytes = 2, ma_content = [104, 105]\<rparr>) None,
      FindById ''c1'', CreateTransport (createTransport ex_credential),
      SendMail (createTransport ex_credential)
        \<lparr>mail_from = ''noreply@example.com'', mail_message = ex_attached\<rparr>,
      Query (UPDATE_sent 1) None, Query COMMIT None, Release]"
proof -
  have sm: "sendMail ex_env (createTransport ex_credential)
          \<lparr>mail_from = username ex_credential, mail_message = ex_attached\<rparr> = None"
    by (simp add: ex_env_def)
  note s = smtp_success(5)[OF ex_facts(1) ex_facts(4) ex_facts(3) ex_transporter sm]
  have t: "trace (snd (smtp_sendEmail ex_env ''c1'' ex_attached ex_world)) = trace ex_world @
     [Connect, Query BEGIN None,
      Query (INSERT_message (smtp_pending_row ''c1'' ex_attached)) None,
      Query (INSERT_attachment
               \<lparr>message_id = 1, ma_filename = ''a.txt'', content_type = None,
                size_bytes = 2, ma_content = [104, 105]\<rparr>) None,
      FindById ''c1'', CreateTransport (createTransport ex_credential),
      SendMail (createTransport ex_credential)
        \<lparr>mail_from = ''noreply@example.com'', mail_message = ex_attached\<rparr>,
      Query (UPDATE_sent 1) None, Query COMMIT None, Release]"
    unfolding s
    by (simp add: ex_world_def attachmentValues_def ex_attached_def to_buffer_def next_id_def
          constructions_def ex_credential_def)
  show ?thesis by (rule call_events_append[OF t])
qed

theorem steps_in_order_witness:
  "sorted (map step_of (call_events ex_world (snd (smtp_sendEmail ex_env ''c1'' ex_attached ex_world))))
   \<and> inserted_first False
       (call_events ex_world (snd (smtp_sendEmail ex_env ''c1'' ex_attached ex_world)))
   \<and> map step_of (call_events ex_world (snd (smtp_sendEmail ex_env ''c1'' ex_attached ex_world)))
       = [1, 1, 2, 3, 4, 5, 6, 7, 7, 9]"
  using steps_in_order[of ex_world ex_env "''c1''" ex_attached]
  by (simp add: ex_attached_smtp)

text \<open>
  The provider API service does not follow the sequence of section 4.1: with an
  attachment, it looks the credential up (step 4) and gets the token and the account
  (step 5) before it stages the attachment (step 3).
\<close>

theorem zoho_stages_after_credential:
  "call_events ex_world (snd (zoho_sendEmail ex_env ''c1'' ex_attached ex_world)) =
     [Connect, Query BEGIN None,
      Query (INSERT_message (zoho_pending_row ''c1'' ex_attached)) None,
      FindById ''c1'', TokenPost ''noreply@example.com'' ''secret'', AccountsGet ''token'',
      AttachmentPost ''acct'' ''a.txt'',
      MessagesPost ''acct''
        (zoho_request ex_credential ex_attached
           [\<lparr>storeName = ''s'', attachmentPath = ''p'', attachmentName = ''a.txt''\<rparr>]),
      Query (UPDATE_sent 1) None, Query COMMIT None, Release]
   \<and> map step_of (call_events ex_world (snd (zoho_sendEmail ex_env ''c1'' ex_attached ex_world)))
       = [1, 1, 2, 4, 5, 5, 3, 6, 7, 7, 9]
   \<and> \<not> sorted (map step_of
                   (call_events ex_world (snd (zoho_sendEmail ex_env ''c1'' ex_attached ex_world))))"
proof -
  let ?ds = "[\<lparr>storeName = ''s'', attachmentPath = ''p'', attachmentName = ''a.txt''\<rparr>]"
  have st: "fst (stage_attachments ex_env ''acct'' ''token'' ex_attached ex_world) = Inr ?ds"
    by (simp add: stage_attachments_def ex_attached_def uploadAttachment_def upload_post_def
          io_defs ex_env_def)
  have m: "messages_endpoint ex_env ''acct'' ''token''
             (zoho_request ex_credential ex_attached ?ds) = None"
    by (simp add: ex_env_def)
  have r: "first_accountId \<lparr>first_accountId = Some ''acct'', accounts_json = ''{}''\<rparr> = Some ''acct''"
          "''acct'' \<noteq> []"
    by simp_all
  note z = zoho_success(5)[OF ex_facts(1) ex_facts(4) ex_provider(1) ex_provider(2) r st m]
  have t: "trace (snd (zoho_sendEmail ex_env ''c1'' ex_attached ex_world)) = trace ex_world @
     [Connect, Query BEGIN None,
      Query (INSERT_message (zoho_pending_row ''c1'' ex_attached)) None,
      FindById ''c1'', TokenPost ''noreply@example.com'' ''secret'', AccountsGet ''token'',
      AttachmentPost ''acct'' ''a.txt'',
      MessagesPost ''acct'' (zoho_request ex_credential ex_attached ?ds),
      Query (UPDATE_sent 1) None, Query COMMIT None, Release]"
    unfolding z
    by (simp add: ex_world_def ex_attached_def next_id_def ex_credential_def)
  show ?thesis
    unfolding call_events_append[OF t] by simp
qed

end
